theory Spec2Isabelle
  imports Complex_Main "HOL-Library.Sublist" "HOL-Library.Multiset"
begin

section \<open>Python values\<close>

text \<open>
  A Python \<open>float\<close>: a finite value (every double is a rational), negative zero, the two
  infinities and NaN. \<open>json.loads\<close> produces all of them (it accepts \<open>NaN\<close>, \<open>Infinity\<close> and
  \<open>-Infinity\<close>).
\<close>

datatype pyfloat = Finite rat | NegZero | PosInf | NegInf | NaN

text \<open>
  What \<open>json.loads\<close> returns: \<open>None\<close>, a \<open>bool\<close>, an \<open>int\<close> (unbounded), a \<open>float\<close>, a \<open>str\<close>,
  a \<open>list\<close> or a \<open>dict\<close>. A dict is an association list read with \<open>map_of\<close>. Python's
  \<open>None\<close> is \<open>JNull\<close>.
\<close>

datatype json =
    JNull
  | JBool bool
  | JInt int
  | JFloat pyfloat
  | JStr string
  | JArr "json list"
  | JObj "(string \<times> json) list"

text \<open>The exceptions the modelled code can meet, each with the text \<open>str(e)\<close> gives.\<close>

datatype pyexn =
    ValueError string
  | TypeError string
  | OverflowError string
  | AttributeError string
  | KeyError string

fun exn_text :: "pyexn \<Rightarrow> string" where
  "exn_text (ValueError m) = m"
| "exn_text (TypeError m) = m"
| "exn_text (OverflowError m) = m"
| "exn_text (AttributeError m) = m"
| "exn_text (KeyError m) = m"

text \<open>
  The two library functions on floats that are not part of the repository and are taken
  as parameters: \<open>float(s)\<close> on a string (\<open>None\<close> is its \<open>ValueError\<close>) and the text an f-string
  gives a float.
\<close>

record pylib =
  str_to_float :: "string \<Rightarrow> pyfloat option"
  float_repr :: "pyfloat \<Rightarrow> string"

abbreviation sq :: string where
  "sq \<equiv> [CHR 0x27]"

fun type_name :: "json \<Rightarrow> string" where
  "type_name JNull = ''NoneType''"
| "type_name (JBool _) = ''bool''"
| "type_name (JInt _) = ''int''"
| "type_name (JFloat _) = ''float''"
| "type_name (JStr _) = ''str''"
| "type_name (JArr _) = ''list''"
| "type_name (JObj _) = ''dict''"

subsection \<open>Comparison of floats\<close>

text \<open>\<open>a <= b\<close> on floats: false as soon as one side is NaN; \<open>-0.0\<close> compares as \<open>0.0\<close>.\<close>

fun float_le :: "pyfloat \<Rightarrow> pyfloat \<Rightarrow> bool" where
  "float_le NaN _ = False"
| "float_le _ NaN = False"
| "float_le NegInf _ = True"
| "float_le _ PosInf = True"
| "float_le PosInf _ = False"
| "float_le _ NegInf = False"
| "float_le (Finite a) (Finite b) = (a \<le> b)"
| "float_le (Finite a) NegZero = (a \<le> 0)"
| "float_le NegZero (Finite b) = (0 \<le> b)"
| "float_le NegZero NegZero = True"

subsection \<open>Conversion to float\<close>

text \<open>
  \<open>float(n)\<close> on an int rounds to the nearest double, ties to even, and raises
  \<open>OverflowError\<close> when the result would not be finite. \<open>shift_count a\<close> is the number of low
  bits that do not fit in the 53-bit significand.
\<close>

function shift_count :: "int \<Rightarrow> nat" where
  "shift_count a = (if a < 2 ^ 53 then 0 else Suc (shift_count (a div 2)))"
  by pat_completeness auto
termination
  by (relation "measure nat") auto

declare shift_count.simps [simp del]

definition int_to_float :: "int \<Rightarrow> pyexn + pyfloat" where
  "int_to_float n =
     (let a = \<bar>n\<bar>;
          sh = shift_count a;
          q = a div 2 ^ sh;
          r = a mod 2 ^ sh;
          q' = (if 2 ^ sh < 2 * r \<or> (2 * r = 2 ^ sh \<and> odd q) then q + 1 else q);
          v = q' * 2 ^ sh
      in if 2 ^ 1024 \<le> v then Inl (OverflowError ''int too large to convert to float'')
         else Inr (Finite (of_int (sgn n * v))))"

definition float_type_error :: "json \<Rightarrow> pyexn" where
  "float_type_error v =
     TypeError (''float() argument must be a string or a real number, not '' @ sq @ type_name v @ sq)"

fun py_float :: "pylib \<Rightarrow> json \<Rightarrow> pyexn + pyfloat" where
  "py_float lib JNull = Inl (float_type_error JNull)"
| "py_float lib (JBool b) = Inr (Finite (if b then 1 else 0))"
| "py_float lib (JInt n) = int_to_float n"
| "py_float lib (JFloat x) = Inr x"
| "py_float lib (JStr s) =
     (case str_to_float lib s of
        None \<Rightarrow> Inl (ValueError (''could not convert string to float: '' @ sq @ s @ sq))
      | Some x \<Rightarrow> Inr x)"
| "py_float lib (JArr xs) = Inl (float_type_error (JArr xs))"
| "py_float lib (JObj kvs) = Inl (float_type_error (JObj kvs))"

subsection \<open>Dictionaries, equality with 0.0\<close>

text \<open>\<open>d.get(key)\<close>: the value, or \<open>None\<close> when the key is absent.\<close>

definition dict_get :: "(string \<times> json) list \<Rightarrow> string \<Rightarrow> json" where
  "dict_get d key = (case map_of d key of None \<Rightarrow> JNull | Some v \<Rightarrow> v)"

text \<open>
  \<open>v == 0.0\<close> on a value read from JSON: true for the int 0, for \<open>0.0\<close> and \<open>-0.0\<close> and for
  \<open>False\<close> (a bool is an int), false for everything else.
\<close>

fun eq_zero :: "json \<Rightarrow> bool" where
  "eq_zero (JInt n) = (n = 0)"
| "eq_zero (JFloat (Finite x)) = (x = 0)"
| "eq_zero (JFloat NegZero) = True"
| "eq_zero (JBool b) = (\<not> b)"
| "eq_zero _ = False"

section \<open>Validator\<close>

text \<open>
  \<open>sensor_name in payload\<close>: key membership on a dict, element membership on a list,
  substring on a string, \<open>TypeError\<close> on everything else.
\<close>

fun py_contains :: "json \<Rightarrow> string \<Rightarrow> pyexn + bool" where
  "py_contains (JObj d) k = Inr (k \<in> fst ` set d)"
| "py_contains (JArr xs) k = Inr (JStr k \<in> set xs)"
| "py_contains (JStr s) k = Inr (sublist k s)"
| "py_contains v k = Inl (TypeError (''argument of type '' @ sq @ type_name v @ sq @ '' is not iterable''))"

text \<open>\<open>v.get\<close>: only a dict has it.\<close>

fun as_dict :: "json \<Rightarrow> pyexn + (string \<times> json) list" where
  "as_dict (JObj d) = Inr d"
| "as_dict v = Inl (AttributeError (sq @ type_name v @ sq @ '' object has no attribute '' @ sq @ ''get'' @ sq))"

definition limits :: "(string \<times> pyfloat \<times> pyfloat) list" where
  "limits =
     [(''Temperature'', Finite 10, Finite 85),
      (''Humidity'', Finite 0, Finite 100),
      (''Pressure'', Finite 700, Finite 1150)]"

text \<open>
  The loop over \<open>limits.items()\<close>, with \<open>errs\<close> threaded through. \<open>ValueError\<close> and
  \<open>TypeError\<close> of \<open>float(val)\<close> are caught; every other exception leaves the function.
\<close>

fun check_limits ::
  "pylib \<Rightarrow> (string \<times> json) list \<Rightarrow> (string \<times> pyfloat \<times> pyfloat) list \<Rightarrow> string list
    \<Rightarrow> pyexn + string list" where
  "check_limits lib s [] errs = Inr errs"
| "check_limits lib s ((key, min_v, max_v) # rest) errs =
     (let val = dict_get s key in
      if val = JNull then check_limits lib s rest (errs @ [''Field '' @ key @ '' is missing''])
      else
        (case py_float lib val of
           Inr num_val \<Rightarrow>
             if \<not> (float_le min_v num_val \<and> float_le num_val max_v)
             then check_limits lib s rest
                    (errs @ [''Value '' @ key @ ''='' @ float_repr lib num_val @ '' out of range (''
                              @ float_repr lib min_v @ ''..'' @ float_repr lib max_v @ '')''])
             else check_limits lib s rest errs
         | Inl (ValueError m) \<Rightarrow>
             check_limits lib s rest (errs @ [''Field '' @ key @ '' is not a valid number''])
         | Inl (TypeError m) \<Rightarrow>
             check_limits lib s rest (errs @ [''Field '' @ key @ '' is not a valid number''])
         | Inl e \<Rightarrow> Inl e))"

definition suspicious :: string where
  "suspicious =
     ''Suspicious reading: Zero values might indicate sensor communication failure''"

definition validate_sensor_data :: "pylib \<Rightarrow> json \<Rightarrow> string \<Rightarrow> pyexn + string list" where
  "validate_sensor_data lib payload sensor_name =
     (case py_contains payload sensor_name of
        Inl e \<Rightarrow> Inl e
      | Inr False \<Rightarrow> Inr [''Sensor '' @ sq @ sensor_name @ sq @ '' not found in JSON'']
      | Inr True \<Rightarrow>
          (case as_dict payload of
             Inl e \<Rightarrow> Inl e
           | Inr p \<Rightarrow>
               (case as_dict (dict_get p sensor_name) of
                  Inl e \<Rightarrow> Inl e
                | Inr s \<Rightarrow>
                    (case check_limits lib s limits [] of
                       Inl e \<Rightarrow> Inl e
                     | Inr errs \<Rightarrow>
                         Inr (if eq_zero (dict_get s ''Temperature'')
                                 \<and> eq_zero (dict_get s ''Humidity'')
                              then errs @ [suspicious] else errs)))))"

subsection \<open>What the specification calls a valid reading\<close>

text \<open>
  A quantity is present, numeric and within its inclusive bounds: the sensor block has the
  key, \<open>float\<close> converts its value (a number, a bool or a numeric string; never \<open>None\<close>),
  and the converted value lies between the bounds.
\<close>

definition quantity_ok :: "pylib \<Rightarrow> (string \<times> json) list \<Rightarrow> string \<Rightarrow> rat \<Rightarrow> rat \<Rightarrow> bool" where
  "quantity_ok lib s key lo hi =
     (case map_of s key of
        None \<Rightarrow> False
      | Some v \<Rightarrow>
          (case py_float lib v of
             Inl e \<Rightarrow> False
           | Inr x \<Rightarrow> float_le (Finite lo) x \<and> float_le x (Finite hi)))"

definition exactly_zero :: "pylib \<Rightarrow> (string \<times> json) list \<Rightarrow> string \<Rightarrow> bool" where
  "exactly_zero lib s key =
     (case map_of s key of
        None \<Rightarrow> False
      | Some v \<Rightarrow>
          (case py_float lib v of
             Inr (Finite x) \<Rightarrow> x = 0
           | Inr NegZero \<Rightarrow> True
           | _ \<Rightarrow> False))"

definition sensor_block :: "json \<Rightarrow> string \<Rightarrow> (string \<times> json) list option" where
  "sensor_block payload name =
     (case payload of
        JObj p \<Rightarrow> (case map_of p name of Some (JObj s) \<Rightarrow> Some s | _ \<Rightarrow> None)
      | _ \<Rightarrow> None)"

definition reading_valid :: "pylib \<Rightarrow> json \<Rightarrow> string \<Rightarrow> bool" where
  "reading_valid lib payload name =
     (case sensor_block payload name of
        None \<Rightarrow> False
      | Some s \<Rightarrow>
          quantity_ok lib s ''Temperature'' 10 85
          \<and> quantity_ok lib s ''Humidity'' 0 100
          \<and> quantity_ok lib s ''Pressure'' 700 1150
          \<and> \<not> (exactly_zero lib s ''Temperature'' \<and> exactly_zero lib s ''Humidity''))"

text \<open>The same test on one entry of \<open>limits\<close>, as the loop meets it.\<close>

definition limit_ok :: "pylib \<Rightarrow> (string \<times> json) list \<Rightarrow> string \<times> pyfloat \<times> pyfloat \<Rightarrow> bool" where
  "limit_ok lib s entry =
     (case entry of (key, lo, hi) \<Rightarrow>
       (case map_of s key of
          None \<Rightarrow> False
        | Some v \<Rightarrow>
            (case py_float lib v of
               Inl e \<Rightarrow> False
             | Inr x \<Rightarrow> float_le lo x \<and> float_le x hi)))"

section \<open>Telemetry validator\<close>

text \<open>
  The \<open>argparse\<close> namespace, one field per option. An option that was not given is
  \<open>None\<close>.
\<close>

record args =
  cidr :: "string option"
  target_ip :: "string option"
  provision_via :: string
  mqtt_host :: string
  mqtt_port :: int
  mqtt_user :: "string option"
  mqtt_password :: "string option"
  wifi_ssid :: "string option"
  wifi_password :: "string option"
  sensor_name :: string
  teleperiod :: int
  mqtt_wait_sec :: pyfloat
  report_file :: "string option"
  log :: bool

text \<open>
  \<open>MqttValidationResult\<close>. The fields \<open>ok\<close> and \<open>topic\<close> are \<open>valid_ok\<close> and \<open>sub_topic\<close> here
  (a field name belongs to one record); \<open>duration_sec\<close>, a wall-clock reading, is left out.
\<close>

record MqttValidationResult =
  valid_ok :: bool
  received_messages :: int
  sub_topic :: string
  errors :: "string list"
  first_payload :: "json option"

text \<open>
  What the function observes of the broker while its time budget lasts, in the order it
  happens: the \<open>on_connect\<close> callback with its reason code (the value compared with 0 and
  the text the f-string gives it), a \<open>msg_queue.get\<close> that times out, and a
  \<open>msg_queue.get\<close> that delivers a message, given by what \<open>json.loads\<close> makes of it.
  The list ends where the budget has elapsed.

  \<open>json.loads\<close> returns the decoded value, raises \<open>JSONDecodeError\<close>, or raises another
  exception (\<open>RecursionError\<close> on deep nesting, \<open>ValueError\<close> on an integer with too many
  digits), given by its text.
\<close>

datatype loads_outcome = Decoded json | JSONDecodeError | LoadsRaises string

datatype mqtt_event =
    OnConnect int string
  | QueueEmpty
  | QueueMessage loads_outcome

record broker =
  connect_raises :: "string option"
  events :: "mqtt_event list"

text \<open>
  The \<open>while\<close> loop with \<open>errors\<close> threaded through. \<open>Inl data\<close> is the \<open>return\<close> inside the
  loop; \<open>Inr errors\<close> is the list as the code after the \<open>try\<close> statement finds it, also when
  \<open>except Exception\<close> has caught an exception of the validator or an exception of
  \<open>json.loads\<close> other than \<open>JSONDecodeError\<close>, which ends the loop.
\<close>

fun poll_loop :: "pylib \<Rightarrow> string \<Rightarrow> mqtt_event list \<Rightarrow> string list \<Rightarrow> json + string list" where
  "poll_loop lib name [] errs = Inr errs"
| "poll_loop lib name (OnConnect rc txt # es) errs =
     poll_loop lib name es (if rc = 0 then errs else errs @ [''MQTT Conn Failed: '' @ txt])"
| "poll_loop lib name (QueueEmpty # es) errs = poll_loop lib name es errs"
| "poll_loop lib name (QueueMessage JSONDecodeError # es) errs =
     poll_loop lib name es (errs @ [''Invalid JSON received''])"
| "poll_loop lib name (QueueMessage (LoadsRaises m) # es) errs =
     Inr (errs @ [''MQTT Library Error: '' @ m])"
| "poll_loop lib name (QueueMessage (Decoded data) # es) errs =
     (case validate_sensor_data lib data name of
        Inl e \<Rightarrow> Inr (errs @ [''MQTT Library Error: '' @ exn_text e])
      | Inr v_errs \<Rightarrow>
          if v_errs = [] then Inl data else poll_loop lib name es (errs @ v_errs))"

text \<open>
  \<open>list(set(errors))\<close> keeps one copy of each string, in an order Python does not fix;
  \<open>remdups\<close> stands for it, and the properties below speak of its elements only.
\<close>

definition validate_mqtt_sensor :: "pylib \<Rightarrow> broker \<Rightarrow> args \<Rightarrow> string \<Rightarrow> MqttValidationResult" where
  "validate_mqtt_sensor lib env a topic =
     (let sub = ''tele/'' @ topic @ ''/SENSOR'' in
      case (case connect_raises env of
              Some m \<Rightarrow> Inr [''MQTT Library Error: '' @ m]
            | None \<Rightarrow> poll_loop lib (sensor_name a) (events env) []) of
        Inl data \<Rightarrow>
          \<lparr>valid_ok = True, received_messages = 1, sub_topic = sub, errors = [],
           first_payload = Some data\<rparr>
      | Inr errs \<Rightarrow>
          \<lparr>valid_ok = False, received_messages = 0, sub_topic = sub,
           errors = (if remdups errs = [] then [''No valid telemetry received'']
                     else remdups errs),
           first_payload = None\<rparr>)"

subsection \<open>Rejected samples and recorded errors\<close>

text \<open>
  An event the loop passes over: anything that is not a message, a message that
  \<open>json.loads\<close> refuses with \<open>JSONDecodeError\<close>, and a decoded message for which the
  validator reports violations. A message on which \<open>json.loads\<close> or the validator raises
  anything else is not passed over: it ends the loop.
\<close>

fun passed_over :: "pylib \<Rightarrow> string \<Rightarrow> mqtt_event \<Rightarrow> bool" where
  "passed_over lib name (QueueMessage (Decoded data)) =
     (case validate_sensor_data lib data name of Inl e \<Rightarrow> False | Inr v_errs \<Rightarrow> v_errs \<noteq> [])"
| "passed_over lib name (QueueMessage (LoadsRaises m)) = False"
| "passed_over lib name ev = True"

text \<open>The error strings an event that is passed over leaves in \<open>errors\<close>.\<close>

fun rejection_errors :: "pylib \<Rightarrow> string \<Rightarrow> mqtt_event \<Rightarrow> string list" where
  "rejection_errors lib name (OnConnect rc txt) =
     (if rc = 0 then [] else [''MQTT Conn Failed: '' @ txt])"
| "rejection_errors lib name QueueEmpty = []"
| "rejection_errors lib name (QueueMessage JSONDecodeError) = [''Invalid JSON received'']"
| "rejection_errors lib name (QueueMessage (Decoded data)) =
     (case validate_sensor_data lib data name of Inl e \<Rightarrow> [] | Inr v_errs \<Rightarrow> v_errs)"
| "rejection_errors lib name (QueueMessage (LoadsRaises m)) = []"

text \<open>
  The error strings any event adds, with the one the handler of \<open>except Exception\<close> adds
  for an event that raises, and whether the event ends the loop by an exception.
\<close>

fun event_errors :: "pylib \<Rightarrow> string \<Rightarrow> mqtt_event \<Rightarrow> string list" where
  "event_errors lib name (OnConnect rc txt) = (if rc = 0 then [] else [''MQTT Conn Failed: '' @ txt])"
| "event_errors lib name QueueEmpty = []"
| "event_errors lib name (QueueMessage JSONDecodeError) = [''Invalid JSON received'']"
| "event_errors lib name (QueueMessage (LoadsRaises m)) = [''MQTT Library Error: '' @ m]"
| "event_errors lib name (QueueMessage (Decoded data)) =
     (case validate_sensor_data lib data name of
        Inl e \<Rightarrow> [''MQTT Library Error: '' @ exn_text e]
      | Inr v_errs \<Rightarrow> v_errs)"

fun event_raises :: "pylib \<Rightarrow> string \<Rightarrow> mqtt_event \<Rightarrow> bool" where
  "event_raises lib name (QueueMessage (Decoded data)) =
     (case validate_sensor_data lib data name of Inl e \<Rightarrow> True | Inr v_errs \<Rightarrow> False)"
| "event_raises lib name (QueueMessage (LoadsRaises m)) = True"
| "event_raises lib name ev = False"

text \<open>The events of a run up to and with the first one that raises.\<close>

definition inspected :: "pylib \<Rightarrow> string \<Rightarrow> mqtt_event list \<Rightarrow> mqtt_event list" where
  "inspected lib name es =
     takeWhile (\<lambda>ev. \<not> event_raises lib name ev) es
     @ take 1 (dropWhile (\<lambda>ev. \<not> event_raises lib name ev) es)"

definition recorded :: "pylib \<Rightarrow> string \<Rightarrow> mqtt_event list \<Rightarrow> string list" where
  "recorded lib name es = concat (map (event_errors lib name) (inspected lib name es))"

subsection \<open>Example runs\<close>

definition example_args :: args where
  "example_args =
     \<lparr>cidr = None, target_ip = Some ''192.168.1.50'', provision_via = ''none'',
      mqtt_host = ''192.168.1.100'', mqtt_port = 1883, mqtt_user = None, mqtt_password = None,
      wifi_ssid = None, wifi_password = None, sensor_name = ''CustomBME280'', teleperiod = 10,
      mqtt_wait_sec = Finite 45, report_file = None, log = False\<rparr>"

definition hot_message :: json where
  "hot_message =
     JObj [(''Time'', JStr ''2026-01-01T00:00:00''),
           (''CustomBME280'',
            JObj [(''Temperature'', JInt 999), (''Humidity'', JFloat (Finite 45)),
                  (''Pressure'', JFloat (Finite 1013))])]"

definition good_block :: "(string \<times> json) list" where
  "good_block =
     [(''Temperature'', JFloat (Finite (45 / 2))), (''Humidity'', JFloat (Finite 45)),
      (''Pressure'', JFloat (Finite 1013))]"

definition good_message :: json where
  "good_message =
     JObj [(''Time'', JStr ''2026-01-01T00:00:20''), (''CustomBME280'', JObj good_block)]"

definition later_message :: json where
  "later_message =
     JObj [(''Time'', JStr ''2026-01-01T00:00:30''),
           (''CustomBME280'',
            JObj [(''Temperature'', JFloat (Finite 23)), (''Humidity'', JFloat (Finite 44)),
                  (''Pressure'', JFloat (Finite 1012))])]"

definition example_broker :: broker where
  "example_broker =
     \<lparr>connect_raises = None,
      events = [OnConnect 0 ''Success'', QueueMessage (Decoded hot_message), QueueEmpty,
                QueueMessage (Decoded hot_message), QueueMessage (Decoded good_message),
                QueueMessage (Decoded later_message)]\<rparr>"

definition silent_broker :: broker where
  "silent_broker = \<lparr>connect_raises = None, events = [OnConnect 0 ''Success'', QueueEmpty, QueueEmpty]\<rparr>"

definition hot_error :: "pylib \<Rightarrow> string" where
  "hot_error lib =
     ''Value Temperature='' @ float_repr lib (Finite 999) @ '' out of range (''
       @ float_repr lib (Finite 10) @ ''..'' @ float_repr lib (Finite 85) @ '')''"

definition rejecting_broker :: broker where
  "rejecting_broker =
     \<lparr>connect_raises = None,
      events = [QueueMessage (Decoded hot_message), QueueMessage (Decoded good_message)]\<rparr>"

definition refused_broker :: broker where
  "refused_broker =
     \<lparr>connect_raises = None,
      events = [OnConnect 5 ''Not authorized'', QueueEmpty, QueueMessage JSONDecodeError,
                QueueMessage (Decoded hot_message), QueueMessage (Decoded hot_message)]\<rparr>"

section \<open>Provisioning\<close>

text \<open>\<open>if x:\<close> on an optional string: \<open>None\<close> and the empty string are false.\<close>

definition truthy :: "string option \<Rightarrow> bool" where
  "truthy x = (case x of None \<Rightarrow> False | Some s \<Rightarrow> s \<noteq> [])"

text \<open>What an f-string writes for an optional string and for an int.\<close>

fun fmt_opt :: "string option \<Rightarrow> string" where
  "fmt_opt None = ''None''"
| "fmt_opt (Some s) = s"

definition digit_char :: "int \<Rightarrow> char" where
  "digit_char d = ''0123456789'' ! nat d"

function str_digits :: "int \<Rightarrow> string" where
  "str_digits n = (if n < 10 then [digit_char n] else str_digits (n div 10) @ [digit_char (n mod 10)])"
  by pat_completeness auto
termination
  by (relation "measure nat") auto

declare str_digits.simps [simp del]

definition str_int :: "int \<Rightarrow> string" where
  "str_int n = (if n < 0 then ''-'' @ str_digits (- n) else str_digits n)"

text \<open>\<open>sep.join(xs)\<close>.\<close>

fun str_join :: "string \<Rightarrow> string list \<Rightarrow> string" where
  "str_join sep [] = []"
| "str_join sep [x] = x"
| "str_join sep (x # y # ys) = x @ sep @ str_join sep (y # ys)"

text \<open>\<open>DeviceInfo\<close>. The topic and the model hold whatever the device's JSON gave.\<close>

record DeviceInfo =
  ip :: string
  port :: int
  topic :: json
  model :: json
  discovered_by :: string

text \<open>
  \<open>ProvisionResult\<close>. The field \<open>method\<close> is \<open>transport\<close> here; \<open>responses\<close> is the decoded
  body for HTTP and a dict from command to text for serial.
\<close>

record ProvisionResult =
  ok :: bool
  transport :: string
  commands_sent :: "string list"
  responses :: json
  error :: "string option"

text \<open>
  What one HTTP GET does: it raises (with the text of the exception), or it returns a
  response with a status code and a body that \<open>.json()\<close> decodes (\<open>Inr\<close>) or refuses by
  raising (\<open>Inl\<close>, the text of the exception). A network is a function from the URL and
  the query parameters to that.
\<close>

datatype http_reply = RequestRaises string | Reply int "string + json"

type_synonym network = "string \<Rightarrow> (string \<times> string) list \<Rightarrow> http_reply"

subsection \<open>HTTP\<close>

text \<open>The list \<open>backlog\<close> as \<open>provision_via_http\<close> builds it.\<close>

definition http_backlog :: "args \<Rightarrow> string list" where
  "http_backlog a =
     (if truthy (wifi_ssid a)
      then [''SSID1 '' @ fmt_opt (wifi_ssid a)]
           @ (if truthy (wifi_password a) then [''Password1 '' @ fmt_opt (wifi_password a)] else [])
      else [])
     @ [''MqttHost '' @ mqtt_host a,
        ''MqttPort '' @ str_int (mqtt_port a),
        ''TelePeriod '' @ str_int (teleperiod a)]
     @ (if truthy (mqtt_user a) then [''MqttUser '' @ fmt_opt (mqtt_user a)] else [])
     @ (if truthy (mqtt_password a) then [''MqttPassword '' @ fmt_opt (mqtt_password a)] else [])
     @ [''Restart 1'']"

definition full_cmd :: "args \<Rightarrow> string" where
  "full_cmd a = ''Backlog '' @ str_join ''; '' (http_backlog a)"

definition provision_via_http :: "network \<Rightarrow> DeviceInfo \<Rightarrow> args \<Rightarrow> ProvisionResult" where
  "provision_via_http net dev a =
     (case net (''http://'' @ ip dev @ '':'' @ str_int (port dev) @ ''/cm'') [(''cmnd'', full_cmd a)] of
        RequestRaises e \<Rightarrow>
          \<lparr>ok = False, transport = ''http'', commands_sent = [full_cmd a], responses = JObj [],
           error = Some e\<rparr>
      | Reply status body \<Rightarrow>
          (case body of
             Inl e \<Rightarrow>
               \<lparr>ok = False, transport = ''http'', commands_sent = [full_cmd a],
                responses = JObj [], error = Some e\<rparr>
           | Inr v \<Rightarrow>
               \<lparr>ok = True, transport = ''http'', commands_sent = [full_cmd a], responses = v,
                error = None\<rparr>))"

subsection \<open>Serial\<close>

text \<open>
  What one call of \<open>send\<close> meets after it has appended the command to \<open>cmds\<close>: the write
  raises, the read raises, or the read returns the text the device has sent. A serial
  port is given by whether opening it (or resetting its input buffer) raises, and by the
  outcome of the \<open>k\<close>-th send, counted from 0.
\<close>

datatype send_outcome = WriteFails string | ReadFails string | Reads string

record serial_port =
  open_raises :: "string option"
  outcome :: "nat \<Rightarrow> send_outcome"

text \<open>
  \<open>resps[c] = v\<close>: the value of an existing key is replaced where it stands, a new key is
  added at the end.
\<close>

fun dict_set :: "(string \<times> 'v) list \<Rightarrow> string \<Rightarrow> 'v \<Rightarrow> (string \<times> 'v) list" where
  "dict_set [] k v = [(k, v)]"
| "dict_set ((k', v') # d) k v = (if k' = k then (k, v) # d else (k', v') # dict_set d k v)"

text \<open>
  The state of the \<open>with\<close> block: the number of sends so far, \<open>cmds\<close>, \<open>resps\<close>, and the
  text of the exception once one has been raised; from then on nothing runs.
\<close>

record serial_run =
  sends :: nat
  cmds :: "string list"
  resps :: "(string \<times> json) list"
  raised :: "string option"

definition send :: "serial_port \<Rightarrow> string \<Rightarrow> serial_run \<Rightarrow> serial_run" where
  "send ser c run =
     (case raised run of
        Some e \<Rightarrow> run
      | None \<Rightarrow>
          (case outcome ser (sends run) of
             WriteFails e \<Rightarrow>
               run\<lparr>sends := Suc (sends run), cmds := cmds run @ [c], raised := Some e\<rparr>
           | ReadFails e \<Rightarrow>
               run\<lparr>sends := Suc (sends run), cmds := cmds run @ [c], raised := Some e\<rparr>
           | Reads txt \<Rightarrow>
               run\<lparr>sends := Suc (sends run), cmds := cmds run @ [c],
                   resps := dict_set (resps run) c (JStr txt)\<rparr>))"

text \<open>The body of the \<open>with\<close> block: the sends in the order of the source.\<close>

definition serial_session :: "serial_port \<Rightarrow> args \<Rightarrow> serial_run" where
  "serial_session ser a =
     (let r0 = \<lparr>sends = 0, cmds = [], resps = [], raised = None\<rparr>;
          r1 = (if truthy (wifi_ssid a)
                then (let r = send ser (''SSID1 '' @ fmt_opt (wifi_ssid a)) r0
                      in if truthy (wifi_password a)
                         then send ser (''Password1 '' @ fmt_opt (wifi_password a)) r else r)
                else r0);
          r2 = send ser (''MqttHost '' @ mqtt_host a) r1;
          r3 = send ser (''MqttPort '' @ str_int (mqtt_port a)) r2;
          r4 = (if truthy (mqtt_user a)
                then send ser (''MqttUser '' @ fmt_opt (mqtt_user a)) r3 else r3);
          r5 = (if truthy (mqtt_password a)
                then send ser (''MqttPassword '' @ fmt_opt (mqtt_password a)) r4 else r4);
          r6 = send ser (''TelePeriod '' @ str_int (teleperiod a)) r5
      in send ser ''Restart 1'' r6)"

text \<open>
  The \<open>try\<close> statement around it: the result is built from \<open>cmds\<close> and \<open>resps\<close> as they
  stand, with the exception's text when one was raised.
\<close>

definition provision_via_serial :: "serial_port \<Rightarrow> args \<Rightarrow> ProvisionResult" where
  "provision_via_serial ser a =
     (case open_raises ser of
        Some e \<Rightarrow>
          \<lparr>ok = False, transport = ''serial'', commands_sent = [], responses = JObj [],
           error = Some e\<rparr>
      | None \<Rightarrow>
          (let r = serial_session ser a
           in case raised r of
                None \<Rightarrow>
                  \<lparr>ok = True, transport = ''serial'', commands_sent = cmds r,
                   responses = JObj (resps r), error = None\<rparr>
              | Some e \<Rightarrow>
                  \<lparr>ok = False, transport = ''serial'', commands_sent = cmds r,
                   responses = JObj (resps r), error = Some e\<rparr>))"

text \<open>The commands \<open>provision_via_serial\<close> sets out to send, in its order.\<close>

definition serial_commands :: "args \<Rightarrow> string list" where
  "serial_commands a =
     (if truthy (wifi_ssid a)
      then [''SSID1 '' @ fmt_opt (wifi_ssid a)]
           @ (if truthy (wifi_password a) then [''Password1 '' @ fmt_opt (wifi_password a)] else [])
      else [])
     @ [''MqttHost '' @ mqtt_host a, ''MqttPort '' @ str_int (mqtt_port a)]
     @ (if truthy (mqtt_user a) then [''MqttUser '' @ fmt_opt (mqtt_user a)] else [])
     @ (if truthy (mqtt_password a) then [''MqttPassword '' @ fmt_opt (mqtt_password a)] else [])
     @ [''TelePeriod '' @ str_int (teleperiod a), ''Restart 1'']"

text \<open>Sending a list of commands one after the other.\<close>

definition send_all :: "serial_port \<Rightarrow> string list \<Rightarrow> serial_run \<Rightarrow> serial_run" where
  "send_all ser cs run = foldl (\<lambda>r c. send ser c r) run cs"

text \<open>A send that returns the device's text, and the keys of a \<open>responses\<close> dict.\<close>

fun is_read :: "send_outcome \<Rightarrow> bool" where
  "is_read (Reads txt) = True"
| "is_read _ = False"

fun response_keys :: "json \<Rightarrow> string list" where
  "response_keys (JObj d) = map fst d"
| "response_keys _ = []"

subsection \<open>Example configurations and devices\<close>

definition secret_args :: args where
  "secret_args =
     \<lparr>cidr = Some ''192.168.1.0/24'', target_ip = None, provision_via = ''serial'',
      mqtt_host = ''192.168.1.100'', mqtt_port = 1883, mqtt_user = Some ''tasmota'',
      mqtt_password = Some ''s3cret'', wifi_ssid = Some ''home'',
      wifi_password = Some ''hunter2'', sensor_name = ''CustomBME280'', teleperiod = 10,
      mqtt_wait_sec = Finite 45, report_file = None, log = False\<rparr>"

definition failing_port :: serial_port where
  "failing_port =
     \<lparr>open_raises = None,
      outcome = (\<lambda>k. if k = 2 then WriteFails ''Write timeout'' else Reads ''RESULT'')\<rparr>"

definition good_port :: serial_port where
  "good_port = \<lparr>open_raises = None, outcome = (\<lambda>k. Reads ''RESULT'')\<rparr>"


definition example_device :: DeviceInfo where
  "example_device =
     \<lparr>ip = ''192.168.1.50'', port = 80, topic = JStr ''tasmota_1'', model = JStr ''Tasmota'',
      discovered_by = ''http-probe''\<rparr>"

definition unauthorized_net :: network where
  "unauthorized_net =
     (\<lambda>url params. Reply 401 (Inr (JObj [(''WARNING'', JStr ''Need user=<username>&password=<password>'')])))"

section \<open>Discovery\<close>

text \<open>The truth value of a JSON value, as \<open>x or y\<close> takes it.\<close>

fun json_truthy :: "json \<Rightarrow> bool" where
  "json_truthy JNull = False"
| "json_truthy (JBool b) = b"
| "json_truthy (JInt n) = (n \<noteq> 0)"
| "json_truthy (JFloat x) = (x \<noteq> Finite 0 \<and> x \<noteq> NegZero)"
| "json_truthy (JStr s) = (s \<noteq> [])"
| "json_truthy (JArr xs) = (xs \<noteq> [])"
| "json_truthy (JObj d) = (d \<noteq> [])"

text \<open>\<open>data[key]\<close> with a string key: only a dict has one.\<close>

fun py_getitem :: "json \<Rightarrow> string \<Rightarrow> pyexn + json" where
  "py_getitem (JObj d) k =
     (case map_of d k of None \<Rightarrow> Inl (KeyError (sq @ k @ sq)) | Some v \<Rightarrow> Inr v)"
| "py_getitem (JArr xs) k = Inl (TypeError ''list indices must be integers or slices, not str'')"
| "py_getitem (JStr s) k = Inl (TypeError (''string indices must be integers, not '' @ sq @ ''str'' @ sq))"
| "py_getitem v k = Inl (TypeError (sq @ type_name v @ sq @ '' object is not subscriptable''))"

text \<open>\<open>d.get(key, default)\<close>.\<close>

definition dict_get_default :: "(string \<times> json) list \<Rightarrow> string \<Rightarrow> json \<Rightarrow> json" where
  "dict_get_default d key dflt = (case map_of d key of None \<Rightarrow> dflt | Some v \<Rightarrow> v)"

definition probe_url :: "string \<Rightarrow> int \<Rightarrow> string" where
  "probe_url addr p = ''http://'' @ addr @ '':'' @ str_int p @ ''/cm?cmnd=Status''"

text \<open>
  \<open>_probe_ip\<close>, with the list of the requests issued so far threaded through. The bare
  \<open>except\<close> turns every exception into \<open>None\<close>.
\<close>

definition probe_ip ::
  "network \<Rightarrow> string \<Rightarrow> int \<Rightarrow> string list \<Rightarrow> DeviceInfo option \<times> string list" where
  "probe_ip net addr p reqs =
     (let url = probe_url addr p in
      ((case net url [] of
         RequestRaises e \<Rightarrow> None
       | Reply status body \<Rightarrow>
           if status = 200 then
             (case body of
                Inl e \<Rightarrow> None
              | Inr data \<Rightarrow>
                  (case py_contains data ''Status'' of
                     Inl e \<Rightarrow> None
                   | Inr False \<Rightarrow> None
                   | Inr True \<Rightarrow>
                       (case py_getitem data ''Status'' of
                          Inl e \<Rightarrow> None
                        | Inr st \<Rightarrow>
                            (case as_dict st of
                               Inl e \<Rightarrow> None
                             | Inr d \<Rightarrow>
                                 Some \<lparr>ip = addr, port = p,
                                       topic = dict_get_default d ''Topic'' (JStr ''unknown''),
                                       model =
                                         (if json_truthy (dict_get d ''DeviceName'')
                                          then dict_get d ''DeviceName''
                                          else dict_get_default d ''FriendlyName'' (JStr ''Tasmota'')),
                                       discovered_by = ''http-probe''\<rparr>))))
           else None),
       reqs @ [url]))"

text \<open>
  \<open>asyncio.gather\<close> over one probe per address: the results come in the order of the
  addresses.
\<close>

fun gather :: "network \<Rightarrow> string list \<Rightarrow> int \<Rightarrow> string list \<Rightarrow> DeviceInfo option list \<times> string list" where
  "gather net [] p reqs = ([], reqs)"
| "gather net (addr # ips) p reqs =
     (case probe_ip net addr p reqs of
        (r, reqs1) \<Rightarrow> (case gather net ips p reqs1 of (rs, reqs2) \<Rightarrow> (r # rs, reqs2)))"

text \<open>
  \<open>scan_network\<close> on the host addresses \<open>ips\<close> that \<open>ipaddress\<close> gives for the CIDR (a library
  outside the repository: the list is taken as it comes). The concurrency limit bounds
  how many probes are in flight, not what they return.
\<close>

definition scan_network :: "network \<Rightarrow> string list \<Rightarrow> int \<Rightarrow> string list \<Rightarrow> DeviceInfo list \<times> string list" where
  "scan_network net ips p reqs =
     (case gather net ips p reqs of (results, reqs') \<Rightarrow> (List.map_filter id results, reqs'))"

subsection \<open>What the specification calls an answer\<close>

text \<open>
  A 200 response whose body is a JSON object with the key \<open>Status\<close> holding an object; and
  the stronger reading, that this object also has the key \<open>Topic\<close>.
\<close>

fun status_object :: "http_reply \<Rightarrow> (string \<times> json) list option" where
  "status_object (Reply status (Inr (JObj d))) =
     (if status = 200 then (case map_of d ''Status'' of Some (JObj st) \<Rightarrow> Some st | _ \<Rightarrow> None)
      else None)"
| "status_object _ = None"

definition answers_identity :: "http_reply \<Rightarrow> bool" where
  "answers_identity reply = (status_object reply \<noteq> None)"

definition has_status_topic :: "http_reply \<Rightarrow> bool" where
  "has_status_topic reply =
     (case status_object reply of None \<Rightarrow> False | Some st \<Rightarrow> map_of st ''Topic'' \<noteq> None)"

definition record_of :: "string \<Rightarrow> int \<Rightarrow> (string \<times> json) list \<Rightarrow> DeviceInfo" where
  "record_of addr p st =
     \<lparr>ip = addr, port = p,
      topic = (case map_of st ''Topic'' of None \<Rightarrow> JStr ''unknown'' | Some v \<Rightarrow> v),
      model = (if json_truthy (dict_get st ''DeviceName'') then dict_get st ''DeviceName''
               else (case map_of st ''FriendlyName'' of None \<Rightarrow> JStr ''Tasmota'' | Some v \<Rightarrow> v)),
      discovered_by = ''http-probe''\<rparr>"

section \<open>Orchestrator\<close>

text \<open>
  What \<open>main\<close> finds outside the program: the serial ports \<open>comports()\<close> lists, each with
  the bytes the locator reads from it after its status probe (\<open>None\<close> when opening or
  probing the port raises); the behaviour of each port under provisioning; the network;
  and the host addresses \<open>ipaddress\<close> gives for a CIDR (\<open>None\<close> is its \<open>ValueError\<close>, which
  leaves \<open>main\<close>).
\<close>

record world =
  comports :: "(string \<times> string option) list"
  serial_at :: "string \<Rightarrow> serial_port"
  http_get :: network
  ip_hosts :: "string \<Rightarrow> string list option"

text \<open>The loop over the ports: the first port whose answer holds \<open>Status\<close>.\<close>

fun locate_port :: "(string \<times> string option) list \<Rightarrow> string option" where
  "locate_port [] = None"
| "locate_port ((pt, None) # ports) = locate_port ports"
| "locate_port ((pt, Some answer) # ports) =
     (if sublist ''Status'' answer then Some pt else locate_port ports)"

text \<open>\<open>DeviceInfo(args.target_ip, discovered_by="manual")\<close>, with the defaults of the class.\<close>

definition manual_device :: "string \<Rightarrow> DeviceInfo" where
  "manual_device addr =
     \<lparr>ip = addr, port = 80, topic = JNull, model = JNull, discovered_by = ''manual''\<rparr>"

text \<open>\<open>asyncio.run(scan_network(args.cidr, 80, 200))\<close>.\<close>

definition run_scan :: "world \<Rightarrow> args \<Rightarrow> DeviceInfo list option" where
  "run_scan w a =
     (case ip_hosts w (fmt_opt (cidr a)) of
        None \<Rightarrow> None
      | Some ips \<Rightarrow> Some (fst (scan_network (http_get w) ips 80 [])))"

text \<open>The loop \<open>for d in devices: prov_results[d.ip] = provision_via_http(d, args)\<close>.\<close>

fun provision_each ::
  "network \<Rightarrow> args \<Rightarrow> DeviceInfo list \<Rightarrow> (string \<times> ProvisionResult) list
    \<Rightarrow> (string \<times> ProvisionResult) list" where
  "provision_each net a [] prov = prov"
| "provision_each net a (d # ds) prov =
     provision_each net a ds (dict_set prov (ip d) (provision_via_http net d a))"

text \<open>
  Phase 1 of \<open>main\<close>: the devices and \<open>prov_results\<close> it ends with, or \<open>None\<close> when the CIDR is
  refused.
\<close>

definition phase1 :: "world \<Rightarrow> args \<Rightarrow> (DeviceInfo list \<times> (string \<times> ProvisionResult) list) option" where
  "phase1 w a =
     (if provision_via a = ''serial'' then
        (let found_port = locate_port (comports w) in
         if truthy found_port then
           (let res = provision_via_serial (serial_at w (fmt_opt found_port)) a;
                prov = [(fmt_opt found_port, res)]
            in if ok res \<and> truthy (cidr a)
               then (case run_scan w a of None \<Rightarrow> None | Some devices \<Rightarrow> Some (devices, prov))
               else Some ([], prov))
         else Some ([], []))
      else
        (case (if truthy (target_ip a) then Some [manual_device (fmt_opt (target_ip a))]
               else if truthy (cidr a) then run_scan w a
               else Some []) of
           None \<Rightarrow> None
         | Some devices \<Rightarrow>
             if provision_via a = ''http'' \<and> devices \<noteq> []
             then Some (devices, provision_each (http_get w) a devices [])
             else Some (devices, [])))"

subsection \<open>Example networks\<close>

definition plug_status :: "(string \<times> json) list" where
  "plug_status =
     [(''DeviceName'', JStr ''Plug''), (''FriendlyName'', JArr [JStr ''Plug'']),
      (''Topic'', JStr ''tasmota_1'')]"

definition plug_net :: network where
  "plug_net =
     (\<lambda>url params.
        if url = ''http://192.168.1.50:80/cm?cmnd=Status''
        then Reply 200 (Inr (JObj [(''Status'', JObj plug_status)]))
        else RequestRaises ''timeout'')"

definition bare_net :: network where
  "bare_net =
     (\<lambda>url params.
        if url = ''http://192.168.1.50:80/cm?cmnd=Status''
        then Reply 200 (Inr (JObj [(''Status'', JObj [(''DeviceName'', JStr ''Plug'')])]))
        else RequestRaises ''timeout'')"

section \<open>Report\<close>







subsection \<open>Example world and configurations\<close>

definition plug_world :: world where
  "plug_world =
     \<lparr>comports = [(''/dev/ttyUSB0'', Some ''00:00:00 CMD: Status'')],
      serial_at = (\<lambda>pt. good_port),
      http_get = plug_net,
      ip_hosts = (\<lambda>c. if c = ''192.168.1.48/30'' then Some [''192.168.1.49'', ''192.168.1.50'']
                       else None)\<rparr>"



section \<open>Properties of the validator\<close>

lemma shift_count_small: "a < 2 ^ 53 \<Longrightarrow> shift_count a = 0"
  by (simp add: shift_count.simps)

lemma check_limits_empty:
  "check_limits lib s ls errs = Inr [] \<longleftrightarrow> errs = [] \<and> list_all (limit_ok lib s) ls"
proof (induction ls arbitrary: errs)
  case Nil
  then show ?case by simp
next
  case (Cons l ls)
  obtain key lo hi where l: "l = (key, lo, hi)" by (cases l)
  show ?case
  proof (cases "map_of s key")
    case None
    then show ?thesis using Cons.IH l by (simp add: dict_get_def limit_ok_def)
  next
    case (Some v)
    show ?thesis
    proof (cases "v = JNull")
      case True
      then show ?thesis using Cons.IH l Some by (simp add: dict_get_def limit_ok_def)
    next
      case False
      then show ?thesis using Cons.IH l Some
        by (auto simp add: dict_get_def limit_ok_def split: sum.splits pyexn.splits)
    qed
  qed
qed

lemma limits_ok_iff:
  "list_all (limit_ok lib s) limits \<longleftrightarrow>
     quantity_ok lib s ''Temperature'' 10 85 \<and> quantity_ok lib s ''Humidity'' 0 100
     \<and> quantity_ok lib s ''Pressure'' 700 1150"
  by (simp add: limits_def limit_ok_def quantity_ok_def)

lemma int_to_float_zero: "int_to_float 0 = Inr (Finite 0)"
  by (simp add: int_to_float_def shift_count_small)

lemma int_to_float_small: "\<bar>n\<bar> < 2 ^ 53 \<Longrightarrow> int_to_float n = Inr (Finite (of_int n))"
proof -
  assume a: "\<bar>n\<bar> < 2 ^ 53"
  have "sgn n * \<bar>n\<bar> = n" by (rule mult_sgn_abs)
  moreover have "\<bar>n\<bar> < 2 ^ 1024" using a
    by (rule less_trans) simp
  ultimately show ?thesis using a
    by (simp add: int_to_float_def shift_count_small Let_def)
qed

lemma eq_zero_float: "eq_zero v \<Longrightarrow> py_float lib v = Inr (Finite 0) \<or> py_float lib v = Inr NegZero"
  by (induction v rule: eq_zero.induct) (simp_all add: int_to_float_zero)

lemma temperature_ok_not_zero:
  assumes "quantity_ok lib s ''Temperature'' 10 85"
  shows "\<not> eq_zero (dict_get s ''Temperature'')" and "\<not> exactly_zero lib s ''Temperature''"
proof -
  obtain v x where v: "map_of s ''Temperature'' = Some v" and x: "py_float lib v = Inr x"
    and le: "float_le (Finite 10) x"
    using assms by (auto simp: quantity_ok_def split: option.splits sum.splits)
  have nz: "x \<noteq> Finite 0" "x \<noteq> NegZero" using le by auto
  show "\<not> eq_zero (dict_get s ''Temperature'')"
    using eq_zero_float [of v lib] v x nz by (auto simp: dict_get_def)
  show "\<not> exactly_zero lib s ''Temperature''"
    using v x le by (cases x) (auto simp: exactly_zero_def)
qed

lemma validate_dict:
  "validate_sensor_data lib (JObj p) name = Inr [] \<longleftrightarrow>
     (\<exists>s. map_of p name = Some (JObj s) \<and> check_limits lib s limits [] = Inr []
          \<and> \<not> (eq_zero (dict_get s ''Temperature'') \<and> eq_zero (dict_get s ''Humidity'')))"
proof (cases "map_of p name")
  case None
  then have "name \<notin> fst ` set p" by (simp add: map_of_eq_None_iff)
  then show ?thesis using None by (simp add: validate_sensor_data_def)
next
  case (Some v)
  then have "name \<in> fst ` set p" by (metis map_of_eq_None_iff option.distinct(1))
  then show ?thesis using Some
    by (cases v) (auto simp: validate_sensor_data_def dict_get_def split: sum.splits)
qed

lemma validate_empty_iff_valid:
  "validate_sensor_data lib payload name = Inr [] \<longleftrightarrow> reading_valid lib payload name"
proof (cases payload)
  case (JObj p)
  show ?thesis
  proof
    assume "validate_sensor_data lib payload name = Inr []"
    then obtain s where s: "map_of p name = Some (JObj s)"
      and c: "check_limits lib s limits [] = Inr []"
      using JObj validate_dict by auto
    have q: "quantity_ok lib s ''Temperature'' 10 85 \<and> quantity_ok lib s ''Humidity'' 0 100
      \<and> quantity_ok lib s ''Pressure'' 700 1150"
      using c by (simp add: check_limits_empty limits_ok_iff)
    then show "reading_valid lib payload name"
      using JObj s temperature_ok_not_zero(2) [of lib s]
      by (simp add: reading_valid_def sensor_block_def)
  next
    assume "reading_valid lib payload name"
    then obtain s where s: "map_of p name = Some (JObj s)"
      and q: "quantity_ok lib s ''Temperature'' 10 85" "quantity_ok lib s ''Humidity'' 0 100"
        "quantity_ok lib s ''Pressure'' 700 1150"
      using JObj
      by (auto simp: reading_valid_def sensor_block_def split: option.splits json.splits)
    have "check_limits lib s limits [] = Inr []"
      using q by (simp add: check_limits_empty limits_ok_iff)
    then show "validate_sensor_data lib payload name = Inr []"
      using JObj s temperature_ok_not_zero(1) [OF q(1)] validate_dict by blast
  qed
qed (auto simp: validate_sensor_data_def reading_valid_def sensor_block_def split: bool.splits)

lemma shift_count_range:
  "2 ^ 53 \<le> a \<Longrightarrow> 0 < shift_count a \<and> 2 ^ 52 \<le> a div 2 ^ shift_count a"
proof (induction a rule: shift_count.induct)
  case (1 a)
  have s: "shift_count a = Suc (shift_count (a div 2))"
    using "1.prems" by (subst shift_count.simps) simp
  have d: "a div 2 ^ Suc k = (a div 2) div 2 ^ k" for k
    by (simp add: zdiv_zmult2_eq)
  show ?case
  proof (cases "a div 2 < 2 ^ 53")
    case True
    then have "shift_count (a div 2) = 0" by (rule shift_count_small)
    moreover have "(2::int) ^ 52 \<le> a div 2" using "1.prems" by simp
    ultimately show ?thesis using s by simp
  next
    case False
    then have "2 ^ 52 \<le> (a div 2) div 2 ^ shift_count (a div 2)"
      using "1.IH" "1.prems" by simp
    then show ?thesis using s d by simp
  qed
qed

lemma int_to_float_large:
  assumes "2 ^ 53 \<le> \<bar>n\<bar>"
  shows "int_to_float n = Inl (OverflowError ''int too large to convert to float'')
         \<or> (\<exists>v. 2 ^ 53 \<le> v \<and> int_to_float n = Inr (Finite (of_int (sgn n * v))))"
proof -
  define sh where "sh = shift_count \<bar>n\<bar>"
  define q where "q = \<bar>n\<bar> div 2 ^ sh"
  define q' where "q' = (if 2 ^ sh < 2 * (\<bar>n\<bar> mod 2 ^ sh) \<or> (2 * (\<bar>n\<bar> mod 2 ^ sh) = 2 ^ sh \<and> odd q) then q + 1 else q)"
  have sh: "0 < sh" and q: "2 ^ 52 \<le> q"
    using shift_count_range [OF assms] by (simp_all add: sh_def q_def)
  have "q \<le> q'" by (simp add: q'_def)
  then have "(2::int) ^ 52 \<le> q'" using q by simp
  moreover have "(2::int) \<le> 2 ^ sh" using sh by (cases sh) simp_all
  ultimately have "(2::int) ^ 52 * 2 \<le> q' * 2 ^ sh"
    by (intro mult_mono) simp_all
  then have v: "(2::int) ^ 53 \<le> q' * 2 ^ sh" by simp
  have "int_to_float n = (if 2 ^ 1024 \<le> q' * 2 ^ sh
          then Inl (OverflowError ''int too large to convert to float'')
          else Inr (Finite (of_int (sgn n * (q' * 2 ^ sh)))))"
    by (simp add: int_to_float_def Let_def sh_def q_def q'_def)
  then show ?thesis using v by (cases "(2::int) ^ 1024 \<le> q' * 2 ^ sh") auto
qed

lemma int_within_bounds_aux:
  assumes "\<bar>lo\<bar> < 2 ^ 53" and "\<bar>hi\<bar> < 2 ^ 53"
  shows "(case int_to_float n of
            Inl e \<Rightarrow> False
          | Inr x \<Rightarrow> float_le (Finite (of_int lo)) x \<and> float_le x (Finite (of_int hi)))
         \<longleftrightarrow> lo \<le> n \<and> n \<le> hi"
proof (cases "\<bar>n\<bar> < 2 ^ 53")
  case True
  then show ?thesis by (simp add: int_to_float_small)
next
  case False
  then have big: "2 ^ 53 \<le> \<bar>n\<bar>" by simp
  have out: "\<not> (lo \<le> n \<and> n \<le> hi)" using big assms by linarith
  from int_to_float_large [OF big] show ?thesis
  proof
    assume "int_to_float n = Inl (OverflowError ''int too large to convert to float'')"
    then show ?thesis using out by simp
  next
    assume "\<exists>v. 2 ^ 53 \<le> v \<and> int_to_float n = Inr (Finite (of_int (sgn n * v)))"
    then obtain v where v: "2 ^ 53 \<le> v" and f: "int_to_float n = Inr (Finite (of_int (sgn n * v)))"
      by blast
    show ?thesis
    proof (cases "0 \<le> n")
      case True
      then have "sgn n = 1" using big by (simp add: sgn_if)
      then have "\<not> rat_of_int (sgn n * v) \<le> of_int hi" using v assms(2) by simp
      then show ?thesis using f out by simp
    next
      case False
      then have "sgn n = - 1" by (simp add: sgn_if)
      then have "\<not> rat_of_int lo \<le> of_int (sgn n * v)" using v assms(1) by simp
      then show ?thesis using f out by simp
    qed
  qed
qed

lemma int_within_bounds:
  assumes "\<bar>lo\<bar> < 2 ^ 53" and "\<bar>hi\<bar> < 2 ^ 53"
    and l: "rlo = of_int lo" and h: "rhi = of_int hi"
  shows "(case int_to_float n of
            Inl e \<Rightarrow> False
          | Inr x \<Rightarrow> float_le (Finite rlo) x \<and> float_le x (Finite rhi))
         \<longleftrightarrow> lo \<le> n \<and> n \<le> hi"
  unfolding l h using assms(1,2) by (rule int_within_bounds_aux)

lemma validator_int_readings:
  "validate_sensor_data lib
     (JObj [(name, JObj [(''Temperature'', JInt t), (''Humidity'', JInt h),
                         (''Pressure'', JInt p)])]) name = Inr []
   \<longleftrightarrow> 10 \<le> t \<and> t \<le> 85 \<and> 0 \<le> h \<and> h \<le> 100 \<and> 700 \<le> p \<and> p \<le> 1150"
proof -
  have "quantity_ok lib [(''Temperature'', JInt t), (''Humidity'', JInt h), (''Pressure'', JInt p)]
          ''Temperature'' 10 85 \<longleftrightarrow> 10 \<le> t \<and> t \<le> 85"
    using int_within_bounds [of 10 85 10 85 t] by (simp add: quantity_ok_def)
  moreover have "quantity_ok lib [(''Temperature'', JInt t), (''Humidity'', JInt h), (''Pressure'', JInt p)]
          ''Humidity'' 0 100 \<longleftrightarrow> 0 \<le> h \<and> h \<le> 100"
    using int_within_bounds [of 0 100 0 100 h] by (simp add: quantity_ok_def)
  moreover have "quantity_ok lib [(''Temperature'', JInt t), (''Humidity'', JInt h), (''Pressure'', JInt p)]
          ''Pressure'' 700 1150 \<longleftrightarrow> 700 \<le> p \<and> p \<le> 1150"
    using int_within_bounds [of 700 1150 700 1150 p] by (simp add: quantity_ok_def)
  moreover have "exactly_zero lib [(''Temperature'', JInt t), (''Humidity'', JInt h), (''Pressure'', JInt p)]
          ''Temperature'' \<Longrightarrow> \<not> (10 \<le> t \<and> t \<le> 85)"
    by (auto simp: exactly_zero_def int_to_float_small)
  ultimately show ?thesis
    by (auto simp: validate_empty_iff_valid reading_valid_def sensor_block_def)
qed

text \<open>
  C4. For every payload and every sensor-block name, the validator returns the empty list
  exactly when the named block is present, Temperature, Humidity and Pressure are present,
  numeric and within 10..85, 0..100 and 700..1150 (bounds included), and Temperature and
  Humidity are not both exactly zero. Where the validator raises it returns no list.
  With Humidity 45.0 and Pressure 1013.0, a Temperature \<open>t\<close> is accepted exactly when
  \<open>10 \<le> t \<le> 85\<close>: 10.0 and 85.0 are valid, 9.999 and 85.001 are not. Three integer
  readings are accepted exactly when each integer lies within its bounds, however large
  the integers are.
\<close>

theorem validator_empty_iff:
  "(validate_sensor_data lib payload name = Inr [] \<longleftrightarrow> reading_valid lib payload name)
   \<and> (validate_sensor_data lib
         (JObj [(name, JObj [(''Temperature'', JFloat (Finite t)),
                             (''Humidity'', JFloat (Finite 45)),
                             (''Pressure'', JFloat (Finite 1013))])]) name = Inr []
        \<longleftrightarrow> 10 \<le> t \<and> t \<le> 85)
   \<and> (validate_sensor_data lib
         (JObj [(name, JObj [(''Temperature'', JInt tn), (''Humidity'', JInt hn),
                             (''Pressure'', JInt pn)])]) name = Inr []
        \<longleftrightarrow> 10 \<le> tn \<and> tn \<le> 85 \<and> 0 \<le> hn \<and> hn \<le> 100 \<and> 700 \<le> pn \<and> pn \<le> 1150)"
  using validator_int_readings [of lib name tn hn pn]
  by (simp add: validate_empty_iff_valid reading_valid_def sensor_block_def quantity_ok_def
      exactly_zero_def)

theorem validator_empty_iff_witness: "\<forall>lib.
   validate_sensor_data lib (JObj [(''CustomBME280'', JObj [(''Temperature'', JFloat (Finite 10)),
                             (''Humidity'', JFloat (Finite 45)),
                             (''Pressure'', JFloat (Finite 1013))])]) ''CustomBME280'' = Inr []
 \<and> validate_sensor_data lib (JObj [(''CustomBME280'', JObj [(''Temperature'', JFloat (Finite 85)),
                             (''Humidity'', JFloat (Finite 45)),
                             (''Pressure'', JFloat (Finite 1013))])]) ''CustomBME280'' = Inr []
 \<and> validate_sensor_data lib (JObj [(''CustomBME280'', JObj [(''Temperature'', JFloat (Finite (9999 / 1000))),
                             (''Humidity'', JFloat (Finite 45)),
                             (''Pressure'', JFloat (Finite 1013))])]) ''CustomBME280'' \<noteq> Inr []
 \<and> validate_sensor_data lib (JObj [(''CustomBME280'', JObj [(''Temperature'', JFloat (Finite (85001 / 1000))),
                             (''Humidity'', JFloat (Finite 45)),
                             (''Pressure'', JFloat (Finite 1013))])]) ''CustomBME280'' \<noteq> Inr []"
proof (intro allI conjI)
  fix lib
  note b = conjunct2 [OF validator_empty_iff [of lib JNull "''CustomBME280''"]]
  show "validate_sensor_data lib (JObj [(''CustomBME280'', JObj [(''Temperature'', JFloat (Finite 10)),
                             (''Humidity'', JFloat (Finite 45)),
                             (''Pressure'', JFloat (Finite 1013))])]) ''CustomBME280'' = Inr []"
    using b [of 10] by simp
  show "validate_sensor_data lib (JObj [(''CustomBME280'', JObj [(''Temperature'', JFloat (Finite 85)),
                             (''Humidity'', JFloat (Finite 45)),
                             (''Pressure'', JFloat (Finite 1013))])]) ''CustomBME280'' = Inr []"
    using b [of 85] by simp
  show "validate_sensor_data lib (JObj [(''CustomBME280'', JObj [(''Temperature'', JFloat (Finite (9999 / 1000))),
                             (''Humidity'', JFloat (Finite 45)),
                             (''Pressure'', JFloat (Finite 1013))])]) ''CustomBME280'' \<noteq> Inr []"
    using b [of "9999 / 1000"] by simp
  show "validate_sensor_data lib (JObj [(''CustomBME280'', JObj [(''Temperature'', JFloat (Finite (85001 / 1000))),
                             (''Humidity'', JFloat (Finite 45)),
                             (''Pressure'', JFloat (Finite 1013))])]) ''CustomBME280'' \<noteq> Inr []"
    using b [of "85001 / 1000"] by simp
qed

section \<open>Properties of the telemetry validator\<close>

lemma poll_loop_passed_over:
  "list_all (passed_over lib name) pre \<Longrightarrow>
   poll_loop lib name (pre @ es) errs
     = poll_loop lib name es (errs @ concat (map (event_errors lib name) pre))"
proof (induction pre arbitrary: errs)
  case Nil
  then show ?case by simp
next
  case (Cons ev pre)
  then show ?case
    by (cases "(lib, name, ev)" rule: passed_over.cases) (auto split: sum.splits)
qed

lemma poll_loop_accepts:
  assumes "list_all (passed_over lib name) pre"
    and "validate_sensor_data lib data name = Inr []"
  shows "poll_loop lib name (pre @ QueueMessage (Decoded data) # rest) errs = Inl data"
  using assms by (simp add: poll_loop_passed_over)

lemma raising_event_ends_loop:
  assumes "list_all (passed_over lib name) pre" and "event_raises lib name ev"
  shows "poll_loop lib name (pre @ ev # rest) errs
           = Inr (errs @ concat (map (event_errors lib name) pre) @ event_errors lib name ev)"
  using assms(2)
  by (cases "(lib, name, ev)" rule: event_raises.cases)
     (auto simp: poll_loop_passed_over [OF assms(1)] split: sum.splits)

lemma poll_loop_Inr:
  "poll_loop lib name es errs = Inr out \<Longrightarrow> out = errs @ recorded lib name es"
proof (induction lib name es errs rule: poll_loop.induct)
  case (6 lib name data es errs)
  then show ?case
    by (auto simp: recorded_def inspected_def split: sum.splits if_splits)
qed (auto simp: recorded_def inspected_def)

lemma validate_hot: "validate_sensor_data lib hot_message ''CustomBME280'' = Inr [hot_error lib]"
  by (simp add: validate_sensor_data_def hot_message_def dict_get_def limits_def
      int_to_float_small hot_error_def)

lemma validate_good: "validate_sensor_data lib good_message ''CustomBME280'' = Inr []"
  by (simp add: validate_sensor_data_def good_message_def good_block_def dict_get_def limits_def)

text \<open>
  C5 (as the code has it). When the connection succeeds and the stream consists of events
  the loop passes over (no message, a message \<open>json.loads\<close> refuses with
  \<open>JSONDecodeError\<close>, or a decoded message with violations),
  followed by a message the validator accepts, the outcome has success true, one received
  message, no errors, and \<open>first_payload\<close> is the whole decoded message, which holds the
  sensor block under the sensor name. Nothing after the accepted message is inspected: the
  outcome is the same whatever follows it.
\<close>

theorem first_valid_wins:
  assumes "connect_raises env = None"
    and "events env = pre @ QueueMessage (Decoded data) # rest"
    and "list_all (passed_over lib (sensor_name a)) pre"
    and "validate_sensor_data lib data (sensor_name a) = Inr []"
  shows "validate_mqtt_sensor lib env a tpc =
           \<lparr>valid_ok = True, received_messages = 1, sub_topic = ''tele/'' @ tpc @ ''/SENSOR'',
            errors = [], first_payload = Some data\<rparr>
         \<and> sensor_block data (sensor_name a) \<noteq> None
         \<and> validate_mqtt_sensor lib (env\<lparr>events := pre @ [QueueMessage (Decoded data)]\<rparr>) a tpc
             = validate_mqtt_sensor lib env a tpc"
proof -
  have "poll_loop lib (sensor_name a) (pre @ QueueMessage (Decoded data) # rest') [] = Inl data"
    for rest'
    using assms(3,4) by (rule poll_loop_accepts)
  from this [of rest] this [of "[]"] have
    "validate_mqtt_sensor lib env a tpc =
           \<lparr>valid_ok = True, received_messages = 1, sub_topic = ''tele/'' @ tpc @ ''/SENSOR'',
            errors = [], first_payload = Some data\<rparr>"
    and "validate_mqtt_sensor lib (env\<lparr>events := pre @ [QueueMessage (Decoded data)]\<rparr>) a tpc
             = validate_mqtt_sensor lib env a tpc"
    using assms(1,2) by (simp_all add: validate_mqtt_sensor_def)
  moreover have "sensor_block data (sensor_name a) \<noteq> None"
    using assms(4) by (auto simp: validate_empty_iff_valid reading_valid_def split: option.splits)
  ultimately show ?thesis by simp
qed

theorem first_valid_wins_witness:
  "\<forall>lib. validate_mqtt_sensor lib example_broker example_args ''tasmota_1'' =
           \<lparr>valid_ok = True, received_messages = 1, sub_topic = ''tele/tasmota_1/SENSOR'',
            errors = [], first_payload = Some good_message\<rparr>"
proof
  fix lib
  have p: "list_all (passed_over lib (sensor_name example_args))
          [OnConnect 0 ''Success'', QueueMessage (Decoded hot_message), QueueEmpty,
           QueueMessage (Decoded hot_message)]"
    by (simp add: example_args_def validate_hot)
  have v: "validate_sensor_data lib good_message (sensor_name example_args) = Inr []"
    by (simp add: example_args_def validate_good)
  have c: "connect_raises example_broker = None"
    by (simp add: example_broker_def)
  have e: "events example_broker =
          [OnConnect 0 ''Success'', QueueMessage (Decoded hot_message), QueueEmpty,
           QueueMessage (Decoded hot_message)] @ QueueMessage (Decoded good_message)
           # [QueueMessage (Decoded later_message)]"
    by (simp add: example_broker_def)
  show "validate_mqtt_sensor lib example_broker example_args ''tasmota_1'' =
           \<lparr>valid_ok = True, received_messages = 1, sub_topic = ''tele/tasmota_1/SENSOR'',
            errors = [], first_payload = Some good_message\<rparr>"
    using first_valid_wins [OF c e p v, of "''tasmota_1''"] by simp
qed

text \<open>
  The first payload is the decoded message, not its sensor block: two hot readings, then a
  good one, then a fourth message.
\<close>

theorem first_payload_is_whole_message:
  "\<forall>lib. valid_ok (validate_mqtt_sensor lib example_broker example_args ''tasmota_1'')
     \<and> sensor_block good_message ''CustomBME280'' = Some good_block
     \<and> first_payload (validate_mqtt_sensor lib example_broker example_args ''tasmota_1'')
         = Some good_message
     \<and> first_payload (validate_mqtt_sensor lib example_broker example_args ''tasmota_1'')
         \<noteq> Some (JObj good_block)"
proof (intro allI conjI)
  fix lib
  have r: "validate_mqtt_sensor lib example_broker example_args ''tasmota_1'' =
           \<lparr>valid_ok = True, received_messages = 1, sub_topic = ''tele/tasmota_1/SENSOR'',
            errors = [], first_payload = Some good_message\<rparr>"
    by (simp add: validate_mqtt_sensor_def example_broker_def example_args_def validate_hot
        validate_good hot_error_def)
  show "valid_ok (validate_mqtt_sensor lib example_broker example_args ''tasmota_1'')"
    by (simp add: r)
  show "sensor_block good_message ''CustomBME280'' = Some good_block"
    by (simp add: sensor_block_def good_message_def)
  show "first_payload (validate_mqtt_sensor lib example_broker example_args ''tasmota_1'')
         = Some good_message"
    by (simp add: r)
  show "first_payload (validate_mqtt_sensor lib example_broker example_args ''tasmota_1'')
         \<noteq> Some (JObj good_block)"
    by (simp add: r good_message_def good_block_def)
qed

lemma validate_mqtt_sensor_cases:
  "(\<exists>data. validate_mqtt_sensor lib env a tpc =
        \<lparr>valid_ok = True, received_messages = 1, sub_topic = ''tele/'' @ tpc @ ''/SENSOR'',
         errors = [], first_payload = Some data\<rparr>)
   \<or> (\<exists>errs. errs \<noteq> [] \<and> validate_mqtt_sensor lib env a tpc =
        \<lparr>valid_ok = False, received_messages = 0, sub_topic = ''tele/'' @ tpc @ ''/SENSOR'',
         errors = errs, first_payload = None\<rparr>)"
  by (simp add: validate_mqtt_sensor_def Let_def split: option.splits sum.splits)

lemma failed_run_errors:
  assumes "connect_raises env = None"
    and "\<not> valid_ok (validate_mqtt_sensor lib env a tpc)"
  shows "errors (validate_mqtt_sensor lib env a tpc) =
           (if recorded lib (sensor_name a) (events env) = []
            then [''No valid telemetry received'']
            else remdups (recorded lib (sensor_name a) (events env)))"
proof (cases "poll_loop lib (sensor_name a) (events env) []")
  case (Inl data)
  then show ?thesis using assms by (simp add: validate_mqtt_sensor_def)
next
  case (Inr out)
  then have "out = recorded lib (sensor_name a) (events env)"
    using poll_loop_Inr [of lib "sensor_name a" "events env" "[]" out] by simp
  then show ?thesis using Inr assms(1) by (simp add: validate_mqtt_sensor_def)
qed

text \<open>
  C8. Every outcome of the telemetry validator has success true exactly when the count of
  accepted messages is 1, and a non-empty error list when success is false; when the budget
  elapses with nothing recorded, the list is the one generic error.
\<close>

theorem outcome_invariant:
  "(valid_ok (validate_mqtt_sensor lib env a tpc)
      \<longleftrightarrow> received_messages (validate_mqtt_sensor lib env a tpc) = 1)
   \<and> (\<not> valid_ok (validate_mqtt_sensor lib env a tpc)
      \<longrightarrow> errors (validate_mqtt_sensor lib env a tpc) \<noteq> [])
   \<and> (\<not> valid_ok (validate_mqtt_sensor lib env a tpc) \<and> connect_raises env = None
       \<and> recorded lib (sensor_name a) (events env) = []
      \<longrightarrow> errors (validate_mqtt_sensor lib env a tpc) = [''No valid telemetry received''])"
proof (intro conjI impI)
  show "valid_ok (validate_mqtt_sensor lib env a tpc)
      \<longleftrightarrow> received_messages (validate_mqtt_sensor lib env a tpc) = 1"
    using validate_mqtt_sensor_cases [of lib env a tpc] by auto
  show "errors (validate_mqtt_sensor lib env a tpc) \<noteq> []"
    if "\<not> valid_ok (validate_mqtt_sensor lib env a tpc)"
    using validate_mqtt_sensor_cases [of lib env a tpc] that by auto
  show "errors (validate_mqtt_sensor lib env a tpc) = [''No valid telemetry received'']"
    if "\<not> valid_ok (validate_mqtt_sensor lib env a tpc) \<and> connect_raises env = None
       \<and> recorded lib (sensor_name a) (events env) = []"
    using failed_run_errors [of env lib a tpc] that by simp
qed

lemma silent_run:
  "validate_mqtt_sensor lib silent_broker example_args ''tasmota_1'' =
     \<lparr>valid_ok = False, received_messages = 0, sub_topic = ''tele/tasmota_1/SENSOR'',
      errors = [''No valid telemetry received''], first_payload = None\<rparr>"
  by (simp add: validate_mqtt_sensor_def silent_broker_def)

theorem outcome_invariant_witness:
  "\<forall>lib. \<not> valid_ok (validate_mqtt_sensor lib silent_broker example_args ''tasmota_1'')
     \<and> connect_raises silent_broker = None
     \<and> recorded lib (sensor_name example_args) (events silent_broker) = []
     \<and> received_messages (validate_mqtt_sensor lib silent_broker example_args ''tasmota_1'') \<noteq> 1
     \<and> errors (validate_mqtt_sensor lib silent_broker example_args ''tasmota_1'') \<noteq> []
     \<and> errors (validate_mqtt_sensor lib silent_broker example_args ''tasmota_1'')
         = [''No valid telemetry received'']"
proof (intro allI)
  fix lib
  have "\<not> valid_ok (validate_mqtt_sensor lib silent_broker example_args ''tasmota_1'')"
    by (simp add: silent_run)
  moreover have "connect_raises silent_broker = None"
    and "recorded lib (sensor_name example_args) (events silent_broker) = []"
    by (simp_all add: silent_broker_def recorded_def inspected_def)
  ultimately have h: "\<not> valid_ok (validate_mqtt_sensor lib silent_broker example_args ''tasmota_1'')"
    "connect_raises silent_broker = None"
    "recorded lib (sensor_name example_args) (events silent_broker) = []"
    by blast+
  show "\<not> valid_ok (validate_mqtt_sensor lib silent_broker example_args ''tasmota_1'')
     \<and> connect_raises silent_broker = None
     \<and> recorded lib (sensor_name example_args) (events silent_broker) = []
     \<and> received_messages (validate_mqtt_sensor lib silent_broker example_args ''tasmota_1'') \<noteq> 1
     \<and> errors (validate_mqtt_sensor lib silent_broker example_args ''tasmota_1'') \<noteq> []
     \<and> errors (validate_mqtt_sensor lib silent_broker example_args ''tasmota_1'')
         = [''No valid telemetry received'']"
    using outcome_invariant [of lib silent_broker example_args "''tasmota_1''"] h by simp
qed

lemma rejection_errors_passed_over:
  "passed_over lib name ev \<Longrightarrow> event_errors lib name ev = rejection_errors lib name ev"
  by (cases "(lib, name, ev)" rule: rejection_errors.cases) (auto split: sum.splits)

lemma poll_loop_all_passed_over:
  assumes "list_all (passed_over lib name) evs"
  shows "poll_loop lib name evs errs = Inr (errs @ concat (map (rejection_errors lib name) evs))"
proof -
  have "map (event_errors lib name) evs = map (rejection_errors lib name) evs"
    using assms by (intro map_cong) (simp_all add: list_all_iff rejection_errors_passed_over)
  then have "concat (map (event_errors lib name) evs)
               = concat (map (rejection_errors lib name) evs)"
    by (rule arg_cong)
  then show ?thesis
    using poll_loop_passed_over [OF assms, of "[]" errs] by simp
qed

text \<open>
  C9 (as the code has it). A run that accepts a sample returns an empty error list. A run
  that connects and passes over every event (no sample is accepted and no exception ends
  the loop) has success false and returns, once each and in an order the model does not
  fix, the error strings of the events it passed over: the violations of every rejected
  sample, \<open>Invalid JSON received\<close> for every message refused with \<open>JSONDecodeError\<close> and
  the connection failures; or the one generic error when there are none.
\<close>

theorem errors_are_recorded:
  "(valid_ok (validate_mqtt_sensor lib env a tpc)
      \<longrightarrow> errors (validate_mqtt_sensor lib env a tpc) = [])
   \<and> (connect_raises env = None \<and> list_all (passed_over lib (sensor_name a)) (events env)
      \<longrightarrow> \<not> valid_ok (validate_mqtt_sensor lib env a tpc)
          \<and> distinct (errors (validate_mqtt_sensor lib env a tpc))
          \<and> set (errors (validate_mqtt_sensor lib env a tpc)) =
              (if concat (map (rejection_errors lib (sensor_name a)) (events env)) = []
               then {''No valid telemetry received''}
               else set (concat (map (rejection_errors lib (sensor_name a)) (events env)))))"
proof (intro conjI impI)
  show "errors (validate_mqtt_sensor lib env a tpc) = []"
    if "valid_ok (validate_mqtt_sensor lib env a tpc)"
    using validate_mqtt_sensor_cases [of lib env a tpc] that by auto
  assume h: "connect_raises env = None \<and> list_all (passed_over lib (sensor_name a)) (events env)"
  then have p: "poll_loop lib (sensor_name a) (events env) []
                  = Inr (concat (map (rejection_errors lib (sensor_name a)) (events env)))"
    using poll_loop_all_passed_over [of lib "sensor_name a" "events env" "[]"] by simp
  show "\<not> valid_ok (validate_mqtt_sensor lib env a tpc)"
    using h p by (simp add: validate_mqtt_sensor_def)
  show "distinct (errors (validate_mqtt_sensor lib env a tpc))"
    using h p by (simp add: validate_mqtt_sensor_def)
  show "set (errors (validate_mqtt_sensor lib env a tpc)) =
              (if concat (map (rejection_errors lib (sensor_name a)) (events env)) = []
               then {''No valid telemetry received''}
               else set (concat (map (rejection_errors lib (sensor_name a)) (events env))))"
    using h p by (simp add: validate_mqtt_sensor_def)
qed

theorem errors_are_recorded_witness:
  "\<forall>lib. connect_raises refused_broker = None
     \<and> list_all (passed_over lib (sensor_name example_args)) (events refused_broker)
     \<and> concat (map (rejection_errors lib (sensor_name example_args)) (events refused_broker))
         = [''MQTT Conn Failed: Not authorized'', ''Invalid JSON received'', hot_error lib,
            hot_error lib]
     \<and> \<not> valid_ok (validate_mqtt_sensor lib refused_broker example_args ''tasmota_1'')
     \<and> set (errors (validate_mqtt_sensor lib refused_broker example_args ''tasmota_1''))
         = {''MQTT Conn Failed: Not authorized'', ''Invalid JSON received'', hot_error lib}
     \<and> distinct (errors (validate_mqtt_sensor lib refused_broker example_args ''tasmota_1''))
     \<and> valid_ok (validate_mqtt_sensor lib example_broker example_args ''tasmota_1'')
     \<and> errors (validate_mqtt_sensor lib example_broker example_args ''tasmota_1'') = []"
proof (intro allI)
  fix lib
  have l: "list_all (passed_over lib (sensor_name example_args)) (events refused_broker)"
    by (simp add: refused_broker_def example_args_def validate_hot)
  have c: "connect_raises refused_broker = None"
    by (simp add: refused_broker_def)
  have e: "concat (map (rejection_errors lib (sensor_name example_args)) (events refused_broker))
         = [''MQTT Conn Failed: Not authorized'', ''Invalid JSON received'', hot_error lib,
            hot_error lib]"
    by (simp add: refused_broker_def example_args_def validate_hot)
  have g: "valid_ok (validate_mqtt_sensor lib example_broker example_args ''tasmota_1'')"
    by (simp add: validate_mqtt_sensor_def example_broker_def example_args_def validate_hot
        validate_good hot_error_def)
  show "connect_raises refused_broker = None
     \<and> list_all (passed_over lib (sensor_name example_args)) (events refused_broker)
     \<and> concat (map (rejection_errors lib (sensor_name example_args)) (events refused_broker))
         = [''MQTT Conn Failed: Not authorized'', ''Invalid JSON received'', hot_error lib,
            hot_error lib]
     \<and> \<not> valid_ok (validate_mqtt_sensor lib refused_broker example_args ''tasmota_1'')
     \<and> set (errors (validate_mqtt_sensor lib refused_broker example_args ''tasmota_1''))
         = {''MQTT Conn Failed: Not authorized'', ''Invalid JSON received'', hot_error lib}
     \<and> distinct (errors (validate_mqtt_sensor lib refused_broker example_args ''tasmota_1''))
     \<and> valid_ok (validate_mqtt_sensor lib example_broker example_args ''tasmota_1'')
     \<and> errors (validate_mqtt_sensor lib example_broker example_args ''tasmota_1'') = []"
    using errors_are_recorded [of lib refused_broker example_args "''tasmota_1''"]
      errors_are_recorded [of lib example_broker example_args "''tasmota_1''"] l c e g
    by simp
qed

text \<open>
  A run in which a later sample is accepted loses the errors of the rejected one.
\<close>

theorem accepted_run_drops_errors:
  "\<forall>lib. validate_sensor_data lib hot_message (sensor_name example_args) = Inr [hot_error lib]
     \<and> valid_ok (validate_mqtt_sensor lib rejecting_broker example_args ''tasmota_1'')
     \<and> errors (validate_mqtt_sensor lib rejecting_broker example_args ''tasmota_1'') = []
     \<and> errors (validate_mqtt_sensor lib rejecting_broker example_args ''tasmota_1'')
         \<noteq> remdups [hot_error lib]"
  by (simp add: validate_mqtt_sensor_def rejecting_broker_def example_args_def validate_hot
      validate_good hot_error_def)

section \<open>Properties of provisioning\<close>

lemma serial_session_send_all:
  "serial_session ser a
     = send_all ser (serial_commands a) \<lparr>sends = 0, cmds = [], resps = [], raised = None\<rparr>"
  unfolding serial_session_def serial_commands_def send_all_def Let_def
  by (cases "truthy (wifi_ssid a)"; cases "truthy (wifi_password a)";
      cases "truthy (mqtt_user a)"; cases "truthy (mqtt_password a)") simp_all

lemma send_all_Nil: "send_all ser [] run = run"
  by (simp add: send_all_def)

lemma send_all_Cons: "send_all ser (c # cs) run = send_all ser cs (send ser c run)"
  by (simp add: send_all_def)

lemma send_all_append: "send_all ser (cs @ ds) run = send_all ser ds (send_all ser cs run)"
  by (simp add: send_all_def)

lemma send_raised: "raised run = Some e \<Longrightarrow> send ser c run = run"
  by (simp add: send_def)

lemma send_all_raised: "raised run = Some e \<Longrightarrow> send_all ser cs run = run"
  by (induction cs) (simp_all add: send_all_Nil send_all_Cons send_raised)

lemma keys_dict_set:
  "map fst (dict_set d k v) = (if k \<in> set (map fst d) then map fst d else map fst d @ [k])"
proof (induction d)
  case Nil
  then show ?case by simp
next
  case (Cons p d)
  then show ?case by (cases p) force
qed

lemma send_read:
  assumes "raised run = None" and "is_read (outcome ser (sends run))"
  shows "raised (send ser c run) = None"
    and "sends (send ser c run) = Suc (sends run)"
    and "cmds (send ser c run) = cmds run @ [c]"
    and "map fst (resps (send ser c run))
           = (if c \<in> set (map fst (resps run)) then map fst (resps run)
              else map fst (resps run) @ [c])"
  using assms by (cases "outcome ser (sends run)"; simp add: send_def keys_dict_set)+

lemma send_fails:
  assumes "raised run = None" and "outcome ser (sends run) = WriteFails e \<or> outcome ser (sends run) = ReadFails e"
  shows "send ser c run = run\<lparr>sends := Suc (sends run), cmds := cmds run @ [c], raised := Some e\<rparr>"
  using assms by (auto simp: send_def)

lemma send_all_reads:
  assumes "raised run = None"
    and "\<forall>i<length cs. is_read (outcome ser (sends run + i))"
    and "map fst (resps run) = cmds run"
    and "distinct (cmds run @ cs)"
  shows "raised (send_all ser cs run) = None
         \<and> sends (send_all ser cs run) = sends run + length cs
         \<and> cmds (send_all ser cs run) = cmds run @ cs
         \<and> map fst (resps (send_all ser cs run)) = cmds run @ cs"
  using assms
proof (induction cs arbitrary: run)
  case Nil
  then show ?case by (simp add: send_all_Nil)
next
  case (Cons c cs)
  have r: "is_read (outcome ser (sends run))" using Cons.prems(2) by auto
  note s = send_read [OF Cons.prems(1) r, of c]
  have "\<forall>i<length cs. is_read (outcome ser (sends (send ser c run) + i))"
  proof (intro allI impI)
    fix i assume "i < length cs"
    then have "is_read (outcome ser (sends run + Suc i))" using Cons.prems(2) by auto
    then show "is_read (outcome ser (sends (send ser c run) + i))" by (simp add: s(2))
  qed
  moreover have "map fst (resps (send ser c run)) = cmds (send ser c run)"
    using s(3,4) Cons.prems(3,4) by simp
  moreover have "distinct (cmds (send ser c run) @ cs)"
    using s(3) Cons.prems(4) by simp
  ultimately show ?case
    using Cons.IH [of "send ser c run"] s(1,2,3) by (simp add: send_all_Cons)
qed

lemma distinct_serial_commands: "distinct (serial_commands a)"
  by (simp add: serial_commands_def)

lemma serial_commands_perm: "mset (serial_commands a) = mset (http_backlog a)"
  by (simp add: serial_commands_def http_backlog_def)

lemma serial_commands_eq_iff:
  "serial_commands a = http_backlog a \<longleftrightarrow> \<not> truthy (mqtt_user a) \<and> \<not> truthy (mqtt_password a)"
  by (simp add: serial_commands_def http_backlog_def)

lemma str_int_examples: "str_int 1883 = ''1883''" "str_int 10 = ''10''" "str_int 80 = ''80''"
  by (simp_all add: str_int_def str_digits.simps digit_char_def)

lemma serial_commands_secret:
  "serial_commands secret_args =
     [''SSID1 home'', ''Password1 hunter2'', ''MqttHost 192.168.1.100'', ''MqttPort 1883'',
      ''MqttUser tasmota'', ''MqttPassword s3cret'', ''TelePeriod 10'', ''Restart 1'']"
  by (simp add: serial_commands_def secret_args_def truthy_def str_int_examples)

lemma http_backlog_secret:
  "http_backlog secret_args =
     [''SSID1 home'', ''Password1 hunter2'', ''MqttHost 192.168.1.100'', ''MqttPort 1883'',
      ''TelePeriod 10'', ''MqttUser tasmota'', ''MqttPassword s3cret'', ''Restart 1'']"
  by (simp add: http_backlog_def secret_args_def truthy_def str_int_examples)

lemma send_all_failure:
  assumes "k < length cs"
    and "\<forall>i<k. is_read (outcome ser i)"
    and "outcome ser k = WriteFails e \<or> outcome ser k = ReadFails e"
    and "distinct cs"
  shows "send_all ser cs \<lparr>sends = 0, cmds = [], resps = [], raised = None\<rparr>
           = \<lparr>sends = Suc k, cmds = take (Suc k) cs,
              resps = resps (send_all ser (take k cs) \<lparr>sends = 0, cmds = [], resps = [], raised = None\<rparr>),
              raised = Some e\<rparr>
         \<and> map fst (resps (send_all ser (take k cs) \<lparr>sends = 0, cmds = [], resps = [], raised = None\<rparr>))
             = take k cs"
proof -
  let ?r0 = "\<lparr>sends = 0, cmds = [], resps = [], raised = None\<rparr>"
  let ?r1 = "send_all ser (take k cs) ?r0"
  have cs: "cs = take k cs @ (cs ! k) # drop (Suc k) cs"
    using assms(1) by (simp add: id_take_nth_drop)
  have len: "length (take k cs) = k" using assms(1) by simp
  have "raised ?r1 = None \<and> sends ?r1 = sends ?r0 + length (take k cs)
        \<and> cmds ?r1 = cmds ?r0 @ take k cs \<and> map fst (resps ?r1) = cmds ?r0 @ take k cs"
    using assms(2,4) len by (intro send_all_reads) (simp_all add: distinct_take)
  then have r1: "raised ?r1 = None" "sends ?r1 = k" "cmds ?r1 = take k cs"
    "map fst (resps ?r1) = take k cs"
    using len by simp_all
  have "send ser (cs ! k) ?r1
          = ?r1\<lparr>sends := Suc (sends ?r1), cmds := cmds ?r1 @ [cs ! k], raised := Some e\<rparr>"
    using r1(1,2) assms(3) by (intro send_fails) simp_all
  then have s: "send ser (cs ! k) ?r1
          = \<lparr>sends = Suc k, cmds = take (Suc k) cs, resps = resps ?r1, raised = Some e\<rparr>"
    using r1 assms(1) by (simp add: take_Suc_conv_app_nth)
  have "send_all ser cs ?r0 = send_all ser (drop (Suc k) cs) (send ser (cs ! k) ?r1)"
    by (subst cs) (simp add: send_all_append send_all_Cons)
  also have "\<dots> = send ser (cs ! k) ?r1"
    by (rule send_all_raised [where e = e]) (simp add: s)
  finally show ?thesis using s r1(4) by simp
qed

text \<open>
  C1 (as the code has it). When the port opens, the first \<open>k\<close> sends complete and the write
  of the next command fails, the outcome has success false and the text of the exception,
  \<open>commands_sent\<close> holds the first \<open>k + 1\<close> commands (\<open>send\<close> records a command before it
  writes it, so the command whose write failed is the last one), and \<open>responses\<close> has the
  first \<open>k\<close> commands as its keys.
\<close>

theorem serial_write_failure:
  assumes "open_raises ser = None"
    and "k < length (serial_commands a)"
    and "\<forall>i<k. is_read (outcome ser i)"
    and "outcome ser k = WriteFails e"
  shows "\<not> ok (provision_via_serial ser a)
         \<and> error (provision_via_serial ser a) = Some e
         \<and> commands_sent (provision_via_serial ser a) = take (Suc k) (serial_commands a)
         \<and> response_keys (responses (provision_via_serial ser a)) = take k (serial_commands a)"
  using send_all_failure [of k "serial_commands a" ser e] assms
  by (simp add: provision_via_serial_def serial_session_send_all distinct_serial_commands Let_def)

theorem serial_write_failure_witness:
  "open_raises failing_port = None \<and> 2 < length (serial_commands secret_args)
   \<and> is_read (outcome failing_port 0) \<and> is_read (outcome failing_port 1)
   \<and> outcome failing_port 2 = WriteFails ''Write timeout''
   \<and> \<not> ok (provision_via_serial failing_port secret_args)
   \<and> error (provision_via_serial failing_port secret_args) = Some ''Write timeout''
   \<and> commands_sent (provision_via_serial failing_port secret_args)
       = [''SSID1 home'', ''Password1 hunter2'', ''MqttHost 192.168.1.100'']
   \<and> response_keys (responses (provision_via_serial failing_port secret_args))
       = [''SSID1 home'', ''Password1 hunter2'']"
proof -
  have o: "open_raises failing_port = None" by (simp add: failing_port_def)
  have l: "2 < length (serial_commands secret_args)" by (simp add: serial_commands_secret)
  have r: "\<forall>i<2. is_read (outcome failing_port i)" by (simp add: failing_port_def)
  have w: "outcome failing_port 2 = WriteFails ''Write timeout''" by (simp add: failing_port_def)
  have t: "take (Suc 2) (serial_commands secret_args)
             = [''SSID1 home'', ''Password1 hunter2'', ''MqttHost 192.168.1.100'']"
    "take 2 (serial_commands secret_args) = [''SSID1 home'', ''Password1 hunter2'']"
    by (simp_all add: serial_commands_secret)
  show ?thesis using serial_write_failure [OF o l r w] o l r w t by simp
qed

lemma send_explicit:
  "send ser c \<lparr>sends = k, cmds = cs, resps = rs, raised = None\<rparr> =
     (case outcome ser k of
        WriteFails e \<Rightarrow> \<lparr>sends = Suc k, cmds = cs @ [c], resps = rs, raised = Some e\<rparr>
      | ReadFails e \<Rightarrow> \<lparr>sends = Suc k, cmds = cs @ [c], resps = rs, raised = Some e\<rparr>
      | Reads txt \<Rightarrow>
          \<lparr>sends = Suc k, cmds = cs @ [c], resps = dict_set rs c (JStr txt), raised = None\<rparr>)"
  "send ser c \<lparr>sends = k, cmds = cs, resps = rs, raised = Some e\<rparr>
     = \<lparr>sends = k, cmds = cs, resps = rs, raised = Some e\<rparr>"
  by (simp_all add: send_def split: send_outcome.splits)

lemma failing_run:
  "provision_via_serial failing_port secret_args =
     \<lparr>ok = False, transport = ''serial'',
      commands_sent = [''SSID1 home'', ''Password1 hunter2'', ''MqttHost 192.168.1.100''],
      responses = JObj [(''SSID1 home'', JStr ''RESULT''), (''Password1 hunter2'', JStr ''RESULT'')],
      error = Some ''Write timeout''\<rparr>"
  by (simp add: provision_via_serial_def serial_session_send_all serial_commands_secret
      send_all_def send_explicit failing_port_def)

text \<open>
  A write failure on the third command leaves three commands in \<open>commands_sent\<close>, not two.
\<close>

theorem failed_command_is_recorded:
  "outcome failing_port 2 = WriteFails ''Write timeout''
   \<and> \<not> ok (provision_via_serial failing_port secret_args)
   \<and> commands_sent (provision_via_serial failing_port secret_args)
       = [''SSID1 home'', ''Password1 hunter2'', ''MqttHost 192.168.1.100'']
   \<and> commands_sent (provision_via_serial failing_port secret_args)
       \<noteq> [''SSID1 home'', ''Password1 hunter2'']"
  by (simp add: failing_run) (simp add: failing_port_def)

lemma good_run:
  "provision_via_serial good_port secret_args =
     \<lparr>ok = True, transport = ''serial'',
      commands_sent =
        [''SSID1 home'', ''Password1 hunter2'', ''MqttHost 192.168.1.100'', ''MqttPort 1883'',
         ''MqttUser tasmota'', ''MqttPassword s3cret'', ''TelePeriod 10'', ''Restart 1''],
      responses =
        JObj [(''SSID1 home'', JStr ''RESULT''), (''Password1 hunter2'', JStr ''RESULT''),
              (''MqttHost 192.168.1.100'', JStr ''RESULT''), (''MqttPort 1883'', JStr ''RESULT''),
              (''MqttUser tasmota'', JStr ''RESULT''), (''MqttPassword s3cret'', JStr ''RESULT''),
              (''TelePeriod 10'', JStr ''RESULT''), (''Restart 1'', JStr ''RESULT'')],
      error = None\<rparr>"
  by (simp add: provision_via_serial_def serial_session_send_all serial_commands_secret
      send_all_def send_explicit good_port_def)

lemma serial_success:
  assumes "open_raises ser = None"
    and "\<forall>i<length (serial_commands a). is_read (outcome ser i)"
  shows "ok (provision_via_serial ser a)"
    and "commands_sent (provision_via_serial ser a) = serial_commands a"
    and "response_keys (responses (provision_via_serial ser a)) = serial_commands a"
    and "error (provision_via_serial ser a) = None"
proof -
  let ?r0 = "\<lparr>sends = 0, cmds = [], resps = [], raised = None\<rparr>"
  have "raised (send_all ser (serial_commands a) ?r0) = None
        \<and> sends (send_all ser (serial_commands a) ?r0) = sends ?r0 + length (serial_commands a)
        \<and> cmds (send_all ser (serial_commands a) ?r0) = cmds ?r0 @ serial_commands a
        \<and> map fst (resps (send_all ser (serial_commands a) ?r0)) = cmds ?r0 @ serial_commands a"
    using assms(2) by (intro send_all_reads) (simp_all add: distinct_serial_commands)
  then show "ok (provision_via_serial ser a)"
    and "commands_sent (provision_via_serial ser a) = serial_commands a"
    and "response_keys (responses (provision_via_serial ser a)) = serial_commands a"
    and "error (provision_via_serial ser a) = None"
    using assms(1) by (simp_all add: provision_via_serial_def serial_session_send_all Let_def)
qed

lemma commands_sent_http: "commands_sent (provision_via_http net dev a) = [full_cmd a]"
  by (simp add: provision_via_http_def split: http_reply.splits sum.splits)

text \<open>
  C2 (as the code has it). For every configuration the commands the serial strategy sends
  are a permutation of the sub-commands the HTTP strategy chains into its Backlog command;
  the two lists are equal exactly when neither a broker user nor a broker password is
  given (otherwise serial sends TelePeriod after the broker credentials and HTTP before).
  The HTTP strategy records the one joined command, and a serial run in which every send
  completes records exactly its list.
\<close>

theorem serial_http_same_directives:
  "mset (serial_commands a) = mset (http_backlog a)
   \<and> (serial_commands a = http_backlog a
        \<longleftrightarrow> \<not> truthy (mqtt_user a) \<and> \<not> truthy (mqtt_password a))
   \<and> commands_sent (provision_via_http net dev a)
        = [''Backlog '' @ str_join ''; '' (http_backlog a)]
   \<and> (open_raises ser = None \<and> (\<forall>i<length (serial_commands a). is_read (outcome ser i))
        \<longrightarrow> ok (provision_via_serial ser a)
            \<and> commands_sent (provision_via_serial ser a) = serial_commands a)"
  using serial_success(1,2) [of ser a]
  by (simp add: serial_commands_perm serial_commands_eq_iff commands_sent_http full_cmd_def)

theorem serial_http_same_directives_witness:
  "open_raises good_port = None
   \<and> (\<forall>i. is_read (outcome good_port i))
   \<and> ok (provision_via_serial good_port example_args)
   \<and> commands_sent (provision_via_serial good_port example_args)
       = [''MqttHost 192.168.1.100'', ''MqttPort 1883'', ''TelePeriod 10'', ''Restart 1'']
   \<and> commands_sent (provision_via_http unauthorized_net example_device example_args)
       = [''Backlog MqttHost 192.168.1.100; MqttPort 1883; TelePeriod 10; Restart 1'']
   \<and> mset (commands_sent (provision_via_serial good_port secret_args))
       = mset (http_backlog secret_args)"
proof -
  have o: "open_raises good_port = None" and r: "\<forall>i. is_read (outcome good_port i)"
    by (simp_all add: good_port_def)
  have u: "\<not> truthy (mqtt_user example_args)" "\<not> truthy (mqtt_password example_args)"
    by (simp_all add: example_args_def truthy_def)
  have b: "http_backlog example_args
             = [''MqttHost 192.168.1.100'', ''MqttPort 1883'', ''TelePeriod 10'', ''Restart 1'']"
    by (simp add: http_backlog_def example_args_def truthy_def str_int_examples)
  show ?thesis
    using serial_http_same_directives [of example_args unauthorized_net example_device good_port]
      serial_http_same_directives [of secret_args unauthorized_net example_device good_port]
      o r u b
    by simp
qed

text \<open>With a broker user and password the two orders differ.\<close>

theorem serial_order_differs:
  "ok (provision_via_serial good_port secret_args)
   \<and> commands_sent (provision_via_serial good_port secret_args)
       = [''SSID1 home'', ''Password1 hunter2'', ''MqttHost 192.168.1.100'', ''MqttPort 1883'',
          ''MqttUser tasmota'', ''MqttPassword s3cret'', ''TelePeriod 10'', ''Restart 1'']
   \<and> http_backlog secret_args
       = [''SSID1 home'', ''Password1 hunter2'', ''MqttHost 192.168.1.100'', ''MqttPort 1883'',
          ''TelePeriod 10'', ''MqttUser tasmota'', ''MqttPassword s3cret'', ''Restart 1'']
   \<and> commands_sent (provision_via_http unauthorized_net example_device secret_args)
       = [''Backlog SSID1 home; Password1 hunter2; MqttHost 192.168.1.100; MqttPort 1883; TelePeriod 10; MqttUser tasmota; MqttPassword s3cret; Restart 1'']
   \<and> commands_sent (provision_via_serial good_port secret_args) \<noteq> http_backlog secret_args"
  by (simp add: good_run http_backlog_secret commands_sent_http full_cmd_def)

text \<open>
  C3 (as the code has it). The HTTP strategy records exactly the one composite command
  whatever happens. A request that raises, and a response whose body does not decode as
  JSON, give success false, the text of the exception and empty responses. A response
  with a JSON body gives success true whatever its status code.
\<close>

theorem http_outcome:
  "commands_sent (provision_via_http net dev a) = [full_cmd a]
   \<and> (case net (''http://'' @ ip dev @ '':'' @ str_int (port dev) @ ''/cm'') [(''cmnd'', full_cmd a)] of
        RequestRaises e \<Rightarrow>
          \<not> ok (provision_via_http net dev a) \<and> error (provision_via_http net dev a) = Some e
          \<and> responses (provision_via_http net dev a) = JObj []
      | Reply status (Inl e) \<Rightarrow>
          \<not> ok (provision_via_http net dev a) \<and> error (provision_via_http net dev a) = Some e
          \<and> responses (provision_via_http net dev a) = JObj []
      | Reply status (Inr v) \<Rightarrow>
          ok (provision_via_http net dev a) \<and> error (provision_via_http net dev a) = None
          \<and> responses (provision_via_http net dev a) = v)"
  by (simp add: provision_via_http_def split: http_reply.splits sum.splits)

text \<open>A 401 response with a JSON body is reported as a success.\<close>

theorem non_success_status_is_ok:
  "unauthorized_net (''http://'' @ ip example_device @ '':'' @ str_int (port example_device) @ ''/cm'')
       [(''cmnd'', full_cmd secret_args)]
     = Reply 401 (Inr (JObj [(''WARNING'', JStr ''Need user=<username>&password=<password>'')]))
   \<and> ok (provision_via_http unauthorized_net example_device secret_args)
   \<and> error (provision_via_http unauthorized_net example_device secret_args) = None"
  by (simp add: provision_via_http_def unauthorized_net_def)

section \<open>Properties of discovery\<close>

lemma probe_ip_result:
  "probe_ip net addr p reqs =
     (map_option (record_of addr p) (status_object (net (probe_url addr p) [])),
      reqs @ [probe_url addr p])"
proof (cases "net (probe_url addr p) []")
  case (RequestRaises e)
  then show ?thesis by (simp add: probe_ip_def)
next
  case (Reply status body)
  show ?thesis
  proof (cases body)
    case (Inl e)
    then show ?thesis using Reply by (simp add: probe_ip_def)
  next
    case (Inr data)
    show ?thesis
    proof (cases data)
      case (JObj d)
      show ?thesis
      proof (cases "map_of d ''Status''")
        case None
        then have "''Status'' \<notin> fst ` set d" by (simp add: map_of_eq_None_iff)
        then show ?thesis using Reply Inr JObj None by (simp add: probe_ip_def)
      next
        case (Some st)
        then have "''Status'' \<in> fst ` set d" by (metis map_of_eq_None_iff option.distinct(1))
        then show ?thesis using Reply Inr JObj Some
          by (cases st) (simp_all add: probe_ip_def record_of_def dict_get_default_def)
      qed
    qed (use Reply Inr in \<open>simp_all add: probe_ip_def split: bool.splits\<close>)
  qed
qed

lemma gather_result:
  "gather net ips p reqs =
     (map (\<lambda>addr. map_option (record_of addr p) (status_object (net (probe_url addr p) []))) ips,
      reqs @ map (\<lambda>addr. probe_url addr p) ips)"
  by (induction ips arbitrary: reqs) (simp_all add: probe_ip_result)

lemma scan_network_result:
  "scan_network net ips p reqs =
     (List.map_filter
        (\<lambda>addr. map_option (record_of addr p) (status_object (net (probe_url addr p) []))) ips,
      reqs @ map (\<lambda>addr. probe_url addr p) ips)"
proof -
  have "List.map_filter id (map f xs) = List.map_filter f xs" for f :: "string \<Rightarrow> DeviceInfo option" and xs
    by (induction xs) (simp_all add: map_filter_simps split: option.splits)
  then show ?thesis by (simp add: scan_network_def gather_result)
qed

lemma scan_network_ips:
  "map ip (fst (scan_network net ips p reqs))
     = filter (\<lambda>addr. answers_identity (net (probe_url addr p) [])) ips"
  by (induction ips)
     (auto simp: scan_network_result map_filter_simps answers_identity_def record_of_def
           split: option.splits)

lemma scan_network_tag:
  "d \<in> set (fst (scan_network net ips p reqs)) \<Longrightarrow> discovered_by d = ''http-probe'' \<and> port d = p"
  by (auto simp: scan_network_result map_filter_def record_of_def)

lemma probe_url_examples:
  "probe_url ''192.168.1.49'' 80 = ''http://192.168.1.49:80/cm?cmnd=Status''"
  "probe_url ''192.168.1.50'' 80 = ''http://192.168.1.50:80/cm?cmnd=Status''"
  by (simp_all add: probe_url_def str_int_examples)

text \<open>
  C6 (as the code has it). A sweep over the host addresses issues exactly one probe per
  address, the probe of that address, and returns one record for each address that
  answered 200 with a JSON object whose \<open>Status\<close> entry is an object, built from that
  object (the topic is its \<open>Topic\<close>, or \<open>unknown\<close> when it has none), in the order of the
  addresses. Every other outcome of a probe gives no record and the sweep goes on.
\<close>

theorem sweep_probes_every_host:
  "snd (scan_network net ips p []) = map (\<lambda>addr. probe_url addr p) ips
   \<and> length (snd (scan_network net ips p [])) = length ips
   \<and> fst (scan_network net ips p [])
       = List.map_filter
           (\<lambda>addr. map_option (record_of addr p) (status_object (net (probe_url addr p) []))) ips
   \<and> map ip (fst (scan_network net ips p []))
       = filter (\<lambda>addr. answers_identity (net (probe_url addr p) [])) ips"
  by (simp add: scan_network_ips) (simp add: scan_network_result)

text \<open>A device whose \<open>Status\<close> object has no \<open>Topic\<close> is recorded all the same.\<close>

theorem record_without_topic:
  "bare_net (probe_url ''192.168.1.50'' 80) []
     = Reply 200 (Inr (JObj [(''Status'', JObj [(''DeviceName'', JStr ''Plug'')])]))
   \<and> \<not> has_status_topic (bare_net (probe_url ''192.168.1.50'' 80) [])
   \<and> fst (scan_network bare_net [''192.168.1.49'', ''192.168.1.50''] 80 [])
       = [\<lparr>ip = ''192.168.1.50'', port = 80, topic = JStr ''unknown'', model = JStr ''Plug'',
           discovered_by = ''http-probe''\<rparr>]"
  by (simp add: scan_network_def probe_ip_def probe_url_examples bare_net_def has_status_topic_def
      dict_get_def dict_get_default_def map_filter_simps)

lemma phase1_tags: "phase1 w a = Some (devices, prov) \<Longrightarrow> d \<in> set devices
  \<Longrightarrow> discovered_by d = ''http-probe'' \<or> discovered_by d = ''manual''"
  by (auto simp: phase1_def run_scan_def manual_device_def Let_def
      split: if_splits option.splits dest: scan_network_tag)

text \<open>
  C7 (as the code has it). Every record of the network sweep carries the tag
  \<open>http-probe\<close>, the record made from a target address carries \<open>manual\<close>, and every device
  phase 1 ends with carries one of the two.
\<close>

theorem sweep_tag:
  "(\<forall>d \<in> set (fst (scan_network net ips p reqs)). discovered_by d = ''http-probe'')
   \<and> discovered_by (manual_device addr) = ''manual''
   \<and> (\<forall>devices prov. phase1 w a = Some (devices, prov) \<longrightarrow>
        (\<forall>d \<in> set devices. discovered_by d = ''http-probe'' \<or> discovered_by d = ''manual''))"
  using scan_network_tag [of _ net ips p reqs] phase1_tags [of w a]
  by (auto simp: manual_device_def)

text \<open>The tag of a swept device is neither \<open>scan\<close> nor one of the three tags listed.\<close>

theorem sweep_tag_is_http_probe:
  "fst (scan_network plug_net [''192.168.1.49'', ''192.168.1.50''] 80 [])
     = [\<lparr>ip = ''192.168.1.50'', port = 80, topic = JStr ''tasmota_1'', model = JStr ''Plug'',
         discovered_by = ''http-probe''\<rparr>]
   \<and> map discovered_by (fst (scan_network plug_net [''192.168.1.49'', ''192.168.1.50''] 80 []))
       = [''http-probe'']
   \<and> ''http-probe'' \<noteq> ''scan''
   \<and> ''http-probe'' \<notin> {''scan'', ''manual'', ''serial-rediscovery''}"
  by (simp add: scan_network_def probe_ip_def probe_url_examples plug_net_def plug_status_def
      dict_get_def dict_get_default_def map_filter_simps)

section \<open>Properties of the report\<close>

lemma send_all_not_raised:
  "raised (send_all ser cs run) = None \<Longrightarrow>
     raised run = None \<and> (\<forall>i<length cs. is_read (outcome ser (sends run + i)))"
proof (induction cs arbitrary: run)
  case Nil
  then show ?case by (simp add: send_all_Nil)
next
  case (Cons c cs)
  have n: "raised (send ser c run) = None"
    and a: "\<forall>i<length cs. is_read (outcome ser (sends (send ser c run) + i))"
    using Cons.IH [of "send ser c run"] Cons.prems by (simp_all add: send_all_Cons)
  have r: "raised run = None"
    using n by (cases "raised run") (simp_all add: send_def)
  have o: "is_read (outcome ser (sends run))"
    using n r by (cases "outcome ser (sends run)") (simp_all add: send_def)
  have s: "sends (send ser c run) = Suc (sends run)"
    using send_read(2) [OF r o] .
  have "is_read (outcome ser (sends run + i))" if "i < length (c # cs)" for i
  proof (cases i)
    case 0
    then show ?thesis using o by simp
  next
    case (Suc j)
    then show ?thesis using a that s by simp
  qed
  then show ?case using r by blast
qed

lemma serial_ok_commands:
  assumes "ok (provision_via_serial ser a)"
  shows "commands_sent (provision_via_serial ser a) = serial_commands a"
    and "response_keys (responses (provision_via_serial ser a)) = serial_commands a"
proof -
  have o: "open_raises ser = None"
    using assms by (cases "open_raises ser") (simp_all add: provision_via_serial_def)
  have "raised (send_all ser (serial_commands a) \<lparr>sends = 0, cmds = [], resps = [], raised = None\<rparr>) = None"
    using assms o
    by (simp add: provision_via_serial_def serial_session_send_all Let_def split: option.splits)
  from send_all_not_raised [OF this]
  have "\<forall>i<length (serial_commands a). is_read (outcome ser i)" by simp
  then show "commands_sent (provision_via_serial ser a) = serial_commands a"
    and "response_keys (responses (provision_via_serial ser a)) = serial_commands a"
    using serial_success(2,3) [OF o] by simp_all
qed





















lemma plug_scan:
  "scan_network plug_net [''192.168.1.49'', ''192.168.1.50''] 80 []
     = ([\<lparr>ip = ''192.168.1.50'', port = 80, topic = JStr ''tasmota_1'', model = JStr ''Plug'',
          discovered_by = ''http-probe''\<rparr>],
        [''http://192.168.1.49:80/cm?cmnd=Status'', ''http://192.168.1.50:80/cm?cmnd=Status''])"
  by (simp add: scan_network_def probe_ip_def probe_url_examples plug_net_def plug_status_def
      dict_get_def dict_get_default_def map_filter_simps)

lemma phase1_example: "phase1 plug_world example_args = Some ([manual_device ''192.168.1.50''], [])"
  by (simp add: phase1_def example_args_def truthy_def)

theorem sweep_tag_witness:
  "fst (scan_network plug_net [''192.168.1.49'', ''192.168.1.50''] 80 [])
     = [\<lparr>ip = ''192.168.1.50'', port = 80, topic = JStr ''tasmota_1'', model = JStr ''Plug'',
         discovered_by = ''http-probe''\<rparr>]
   \<and> map discovered_by (fst (scan_network plug_net [''192.168.1.49'', ''192.168.1.50''] 80 []))
       = [''http-probe'']
   \<and> phase1 plug_world example_args = Some ([manual_device ''192.168.1.50''], [])
   \<and> discovered_by (manual_device ''192.168.1.50'') = ''manual''"
  using sweep_tag [of plug_net "[''192.168.1.49'', ''192.168.1.50'']" 80 "[]" "''192.168.1.50''"
      plug_world example_args]
  by (simp add: plug_scan phase1_example)


end
